theory Spec2Isabelle
  imports Complex_Main "HOL-Library.AList"
begin

section \<open>Data model (app/models/models.py)\<close>

text \<open>Identities and document ids are strings.\<close>

type_synonym uid = string
type_synonym doc_id = string

text \<open>
  A \<^verbatim>\<open>datetime\<close> has microsecond resolution and is either naive (no \<^verbatim>\<open>tzinfo\<close>) or
  offset-aware; the integer is the number of microseconds since the epoch, for an aware value
  those of its UTC instant.  Two values of one kind are ordered and subtracted by their
  microseconds; \<^verbatim>\<open><\<close>, \<^verbatim>\<open>>\<close> and \<^verbatim>\<open>-\<close> between a naive and an aware value raise
  \<^verbatim>\<open>TypeError\<close> (the value \<open>None\<close>).  A \<^verbatim>\<open>timedelta\<close> is its number of microseconds.
\<close>

datatype datetime = Naive int | Aware int

fun datetime_lt :: "datetime \<Rightarrow> datetime \<Rightarrow> bool option" where
  "datetime_lt (Naive a) (Naive b) = Some (a < b)"
| "datetime_lt (Aware a) (Aware b) = Some (a < b)"
| "datetime_lt _ _ = None"

definition datetime_gt :: "datetime \<Rightarrow> datetime \<Rightarrow> bool option" where
  "datetime_gt a b = datetime_lt b a"

fun datetime_sub :: "datetime \<Rightarrow> datetime \<Rightarrow> int option" where
  "datetime_sub (Naive a) (Naive b) = Some (a - b)"
| "datetime_sub (Aware a) (Aware b) = Some (a - b)"
| "datetime_sub _ _ = None"

fun same_kind :: "datetime \<Rightarrow> datetime \<Rightarrow> bool" where
  "same_kind (Naive a) (Naive b) = True"
| "same_kind (Aware a) (Aware b) = True"
| "same_kind _ _ = False"

text \<open>
  A finite \<^verbatim>\<open>float\<close> is the real number it denotes.  The operations on floats round their
  results, and the functions of \<^verbatim>\<open>math\<close> are those of the platform's C library; none of
  that is fixed here: the arithmetic in use is an argument of every function that computes
  with floats.  \<open>float_truediv\<close> is \<^verbatim>\<open>/\<close> (also between two integers), \<open>float_pow\<close> is
  \<^verbatim>\<open>**\<close> with an integer exponent, \<open>math_sqrt_value\<close> is the value of \<^verbatim>\<open>math.sqrt\<close> on an
  argument that is not negative.
\<close>

record float_arith =
  float_add :: "real \<Rightarrow> real \<Rightarrow> real"
  float_sub :: "real \<Rightarrow> real \<Rightarrow> real"
  float_mul :: "real \<Rightarrow> real \<Rightarrow> real"
  float_truediv :: "real \<Rightarrow> real \<Rightarrow> real"
  float_pow :: "real \<Rightarrow> nat \<Rightarrow> real"
  math_radians :: "real \<Rightarrow> real"
  math_sin :: "real \<Rightarrow> real"
  math_cos :: "real \<Rightarrow> real"
  math_sqrt_value :: "real \<Rightarrow> real"
  math_atan2 :: "real \<Rightarrow> real \<Rightarrow> real"

datatype VehicleSize = compact | midsize | large | suv | any

datatype BookingStatus = pending | approved | rejected | confirmed | completed | cancelled

datatype UserRole = finder | renter | both

text \<open>Field names that several models share carry a prefix here: the \<^verbatim>\<open>id\<close> of a
  spot is \<open>spot_doc_id\<close> and that of a booking \<open>booking_doc_id\<close>; the fields of
  \<^verbatim>\<open>ParkingSpotUpdate\<close> start with \<open>upd_\<close>, those of \<^verbatim>\<open>BookingCreate\<close> with
  \<open>req_\<close>, and the coordinates and times of \<^verbatim>\<open>ParkingSpotSearch\<close> with \<open>search_\<close>.\<close>

record User =
  user_uid :: uid
  email :: string
  name :: string
  phone_number :: "string option"
  profile_image_url :: "string option"
  role :: UserRole
  user_created_at :: datetime
  last_login_at :: "datetime option"

record ParkingSpot =
  spot_doc_id :: doc_id
  address :: string
  latitude :: real
  longitude :: real
  hourly_rate :: real
  is_available :: bool
  availability_start :: datetime
  availability_end :: datetime
  max_vehicle_size :: VehicleSize
  description :: string
  image_url :: "string option"
  owner_id :: uid
  owner_name :: string
  spot_created_at :: datetime
  updated_at :: datetime

record ParkingSpotUpdate =
  upd_address :: "string option"
  upd_latitude :: "real option"
  upd_longitude :: "real option"
  upd_hourly_rate :: "real option"
  upd_is_available :: "bool option"
  upd_availability_start :: "datetime option"
  upd_availability_end :: "datetime option"
  upd_max_vehicle_size :: "VehicleSize option"
  upd_description :: "string option"
  upd_image_url :: "string option"

record BookingCreate =
  req_spot_id :: doc_id
  req_start_time :: datetime
  req_end_time :: datetime
  req_message :: "string option"
  req_finder_id :: uid
  req_finder_name :: string
  req_finder_email :: string

text \<open>A key that a stored booking does not have yet (\<^verbatim>\<open>owner_response\<close>,
  \<^verbatim>\<open>responded_at\<close>) reads as \<open>None\<close>.\<close>

record Booking =
  booking_doc_id :: doc_id
  spot_id :: doc_id
  finder_id :: uid
  finder_name :: string
  finder_email :: string
  start_time :: datetime
  end_time :: datetime
  total_amount :: real
  status :: BookingStatus
  message :: "string option"
  created_at :: datetime
  owner_response :: "string option"
  responded_at :: "datetime option"

record ParkingSpotSearch =
  search_latitude :: "real option"
  search_longitude :: "real option"
  search_radius :: "real option"
  max_price :: "real option"
  vehicle_size :: "VehicleSize option"
  search_start_time :: "datetime option"
  search_end_time :: "datetime option"

text \<open>The status codes the handlers raise as \<^verbatim>\<open>HTTPException\<close>; 422 is the framework's
  answer to a query parameter outside its declared \<^verbatim>\<open>Query(ge=..., le=...)\<close> bounds.\<close>

datatype http_error =
    HTTP_400_BAD_REQUEST
  | HTTP_403_FORBIDDEN
  | HTTP_404_NOT_FOUND
  | HTTP_422_UNPROCESSABLE_ENTITY
  | HTTP_500_INTERNAL_SERVER_ERROR

section \<open>Document store (app/services/firebase_service.py)\<close>

text \<open>
  The three collections, each a list of (document id, document) pairs in the order in which
  the store streams them.  A document is looked up by id with \<open>map_of\<close>.
\<close>

record store =
  users :: "(uid \<times> User) list"
  parking_spots :: "(doc_id \<times> ParkingSpot) list"
  bookings :: "(doc_id \<times> Booking) list"

definition get_parking_spot_doc :: "store \<Rightarrow> doc_id \<Rightarrow> ParkingSpot option" where
  "get_parking_spot_doc db sid = map_of (parking_spots db) sid"

definition get_available_parking_spots :: "store \<Rightarrow> ParkingSpot list" where
  "get_available_parking_spots db = filter is_available (map snd (parking_spots db))"

text \<open>\<^verbatim>\<open>document(id).update(data)\<close> raises when the document is absent; the service catches
  that and returns False.  Otherwise the given fields are merged into the document.\<close>

definition update_parking_spot_doc ::
  "store \<Rightarrow> doc_id \<Rightarrow> (ParkingSpot \<Rightarrow> ParkingSpot) \<Rightarrow> bool \<times> store" where
  "update_parking_spot_doc db sid merge =
     (case map_of (parking_spots db) sid of
        None \<Rightarrow> (False, db)
      | Some sp \<Rightarrow> (True, db\<lparr>parking_spots := AList.update sid (merge sp) (parking_spots db)\<rparr>))"

definition delete_parking_spot_doc :: "store \<Rightarrow> doc_id \<Rightarrow> bool \<times> store" where
  "delete_parking_spot_doc db sid =
     (True, db\<lparr>parking_spots := AList.delete sid (parking_spots db)\<rparr>)"

text \<open>\<^verbatim>\<open>create_booking\<close>: the store picks the id of the new document (here the argument
  \<open>new_id\<close>), the id is written into the document, and the document is set.\<close>

definition create_booking :: "store \<Rightarrow> doc_id \<Rightarrow> Booking \<Rightarrow> doc_id \<times> store" where
  "create_booking db new_id booking_data =
     (new_id, db\<lparr>bookings :=
        AList.update new_id (booking_data\<lparr>booking_doc_id := new_id\<rparr>) (bookings db)\<rparr>)"

definition get_booking_doc :: "store \<Rightarrow> doc_id \<Rightarrow> Booking option" where
  "get_booking_doc db bid = map_of (bookings db) bid"

definition update_booking :: "store \<Rightarrow> doc_id \<Rightarrow> (Booking \<Rightarrow> Booking) \<Rightarrow> bool \<times> store" where
  "update_booking db bid merge =
     (case map_of (bookings db) bid of
        None \<Rightarrow> (False, db)
      | Some b \<Rightarrow> (True, db\<lparr>bookings := AList.update bid (merge b) (bookings db)\<rparr>))"

definition delete_booking_doc :: "store \<Rightarrow> doc_id \<Rightarrow> bool \<times> store" where
  "delete_booking_doc db bid = (True, db\<lparr>bookings := AList.delete bid (bookings db)\<rparr>)"

section \<open>Booking handlers (app/routers/bookings_router.py)\<close>

text \<open>
  A handler takes the request, the authenticated identity \<open>firebase_uid\<close>, the clock reading
  \<open>now\<close> and the store; it returns the HTTP error or the response data, together with the
  store after the call.  A handler that computes with floats takes the float arithmetic
  \<open>fa\<close> first.
\<close>

definition total_seconds :: "float_arith \<Rightarrow> int \<Rightarrow> real" where
  "total_seconds fa delta = float_truediv fa (real_of_int delta) 1000000"

text \<open>An exception other than \<^verbatim>\<open>HTTPException\<close> raised in the body (here the
  \<^verbatim>\<open>TypeError\<close> of a comparison or subtraction of datetimes of two kinds) is answered with
  status 500.  In \<^verbatim>\<open>x or y\<close> the second comparison is made only when the first is false.\<close>

definition create_booking_request ::
  "float_arith \<Rightarrow> BookingCreate \<Rightarrow> uid \<Rightarrow> datetime \<Rightarrow> doc_id \<Rightarrow> store
     \<Rightarrow> (http_error + doc_id) \<times> store" where
  "create_booking_request fa booking_data firebase_uid now new_id db =
     (if req_finder_id booking_data \<noteq> firebase_uid then (Inl HTTP_403_FORBIDDEN, db)
      else case get_parking_spot_doc db (req_spot_id booking_data) of
        None \<Rightarrow> (Inl HTTP_404_NOT_FOUND, db)
      | Some spot \<Rightarrow>
          if \<not> is_available spot then (Inl HTTP_400_BAD_REQUEST, db)
          else
            case datetime_lt (req_start_time booking_data) (availability_start spot) of
              None \<Rightarrow> (Inl HTTP_500_INTERNAL_SERVER_ERROR, db)
            | Some True \<Rightarrow> (Inl HTTP_400_BAD_REQUEST, db)
            | Some False \<Rightarrow>
               (case datetime_gt (req_end_time booking_data) (availability_end spot) of
                  None \<Rightarrow> (Inl HTTP_500_INTERNAL_SERVER_ERROR, db)
                | Some True \<Rightarrow> (Inl HTTP_400_BAD_REQUEST, db)
                | Some False \<Rightarrow>
                   (case datetime_sub (req_end_time booking_data) (req_start_time booking_data) of
                      None \<Rightarrow> (Inl HTTP_500_INTERNAL_SERVER_ERROR, db)
                    | Some delta \<Rightarrow>
                        let hours = float_truediv fa (total_seconds fa delta) 3600;
                            amount = float_mul fa hours (hourly_rate spot);
                            booking_dict = \<lparr>
                              booking_doc_id = [],
                              spot_id = req_spot_id booking_data,
                              finder_id = req_finder_id booking_data,
                              finder_name = req_finder_name booking_data,
                              finder_email = req_finder_email booking_data,
                              start_time = req_start_time booking_data,
                              end_time = req_end_time booking_data,
                              total_amount = amount,
                              status = pending,
                              message = req_message booking_data,
                              created_at = now,
                              owner_response = None,
                              responded_at = None \<rparr>;
                            (booking_id, db') = create_booking db new_id booking_dict
                        in (Inr booking_id, db'))))"

text \<open>\<^verbatim>\<open>if not spot or spot["owner_id"] != firebase_uid\<close>\<close>

definition not_owned_by :: "ParkingSpot option \<Rightarrow> uid \<Rightarrow> bool" where
  "not_owned_by spot firebase_uid =
     (case spot of None \<Rightarrow> True | Some sp \<Rightarrow> owner_id sp \<noteq> firebase_uid)"

definition approve_booking_request ::
  "doc_id \<Rightarrow> string option \<Rightarrow> uid \<Rightarrow> datetime \<Rightarrow> store \<Rightarrow> (http_error + Booking option) \<times> store" where
  "approve_booking_request booking_id response_message firebase_uid now db =
     (case get_booking_doc db booking_id of
        None \<Rightarrow> (Inl HTTP_404_NOT_FOUND, db)
      | Some booking \<Rightarrow>
          if not_owned_by (get_parking_spot_doc db (spot_id booking)) firebase_uid
          then (Inl HTTP_403_FORBIDDEN, db)
          else if status booking \<noteq> pending then (Inl HTTP_400_BAD_REQUEST, db)
          else
            let (success, db') = update_booking db booking_id
                  (\<lambda>b. b\<lparr>status := approved, owner_response := response_message,
                         responded_at := Some now\<rparr>)
            in if \<not> success then (Inl HTTP_500_INTERNAL_SERVER_ERROR, db')
               else (Inr (get_booking_doc db' booking_id), db'))"

definition reject_booking_request ::
  "doc_id \<Rightarrow> string option \<Rightarrow> uid \<Rightarrow> datetime \<Rightarrow> store \<Rightarrow> (http_error + Booking option) \<times> store" where
  "reject_booking_request booking_id response_message firebase_uid now db =
     (case get_booking_doc db booking_id of
        None \<Rightarrow> (Inl HTTP_404_NOT_FOUND, db)
      | Some booking \<Rightarrow>
          if not_owned_by (get_parking_spot_doc db (spot_id booking)) firebase_uid
          then (Inl HTTP_403_FORBIDDEN, db)
          else if status booking \<noteq> pending then (Inl HTTP_400_BAD_REQUEST, db)
          else
            let (success, db') = update_booking db booking_id
                  (\<lambda>b. b\<lparr>status := rejected, owner_response := response_message,
                         responded_at := Some now\<rparr>)
            in if \<not> success then (Inl HTTP_500_INTERNAL_SERVER_ERROR, db')
               else (Inr (get_booking_doc db' booking_id), db'))"

definition cancel_booking_request ::
  "doc_id \<Rightarrow> uid \<Rightarrow> datetime \<Rightarrow> store \<Rightarrow> (http_error + Booking option) \<times> store" where
  "cancel_booking_request booking_id firebase_uid now db =
     (case get_booking_doc db booking_id of
        None \<Rightarrow> (Inl HTTP_404_NOT_FOUND, db)
      | Some booking \<Rightarrow>
          if finder_id booking \<noteq> firebase_uid then (Inl HTTP_403_FORBIDDEN, db)
          else if status booking \<notin> set [pending, approved] then (Inl HTTP_400_BAD_REQUEST, db)
          else
            let (success, db') = update_booking db booking_id
                  (\<lambda>b. b\<lparr>status := cancelled, responded_at := Some now\<rparr>)
            in if \<not> success then (Inl HTTP_500_INTERNAL_SERVER_ERROR, db')
               else (Inr (get_booking_doc db' booking_id), db'))"

definition delete_booking :: "doc_id \<Rightarrow> uid \<Rightarrow> store \<Rightarrow> (http_error + unit) \<times> store" where
  "delete_booking booking_id firebase_uid db =
     (case get_booking_doc db booking_id of
        None \<Rightarrow> (Inl HTTP_404_NOT_FOUND, db)
      | Some booking \<Rightarrow>
          if finder_id booking \<noteq> firebase_uid
             \<and> not_owned_by (get_parking_spot_doc db (spot_id booking)) firebase_uid
          then (Inl HTTP_403_FORBIDDEN, db)
          else if status booking \<notin> set [cancelled, completed] then (Inl HTTP_400_BAD_REQUEST, db)
          else
            let (success, db') = delete_booking_doc db booking_id
            in if \<not> success then (Inl HTTP_500_INTERNAL_SERVER_ERROR, db')
               else (Inr (), db'))"

section \<open>Parking-spot handlers (app/routers/parking_spots_router.py)\<close>

subsection \<open>Update and delete\<close>

text \<open>
  \<^verbatim>\<open>update_data\<close> is a dictionary from field names to new values, built key by key; it is
  modelled as the list of its entries in insertion order, each entry naming its field.
\<close>

datatype update_entry =
    Set_address string
  | Set_latitude real
  | Set_longitude real
  | Set_hourly_rate real
  | Set_is_available bool
  | Set_availability_start datetime
  | Set_availability_end datetime
  | Set_max_vehicle_size VehicleSize
  | Set_description string
  | Set_image_url string
  | Set_updated_at datetime

fun set_field :: "update_entry \<Rightarrow> ParkingSpot \<Rightarrow> ParkingSpot" where
  "set_field (Set_address v) sp = sp\<lparr>address := v\<rparr>"
| "set_field (Set_latitude v) sp = sp\<lparr>latitude := v\<rparr>"
| "set_field (Set_longitude v) sp = sp\<lparr>longitude := v\<rparr>"
| "set_field (Set_hourly_rate v) sp = sp\<lparr>hourly_rate := v\<rparr>"
| "set_field (Set_is_available v) sp = sp\<lparr>is_available := v\<rparr>"
| "set_field (Set_availability_start v) sp = sp\<lparr>availability_start := v\<rparr>"
| "set_field (Set_availability_end v) sp = sp\<lparr>availability_end := v\<rparr>"
| "set_field (Set_max_vehicle_size v) sp = sp\<lparr>max_vehicle_size := v\<rparr>"
| "set_field (Set_description v) sp = sp\<lparr>description := v\<rparr>"
| "set_field (Set_image_url v) sp = sp\<lparr>image_url := Some v\<rparr>"
| "set_field (Set_updated_at v) sp = sp\<lparr>updated_at := v\<rparr>"

definition merge_update_data :: "update_entry list \<Rightarrow> ParkingSpot \<Rightarrow> ParkingSpot" where
  "merge_update_data update_data sp = fold set_field update_data sp"

text \<open>\<^verbatim>\<open>if spot_update.f is not None: update_data["f"] = spot_update.f\<close>\<close>

definition if_not_None :: "'a option \<Rightarrow> ('a \<Rightarrow> update_entry) \<Rightarrow> update_entry list" where
  "if_not_None v entry = (case v of None \<Rightarrow> [] | Some x \<Rightarrow> [entry x])"

definition prepare_update_data :: "ParkingSpotUpdate \<Rightarrow> datetime \<Rightarrow> update_entry list" where
  "prepare_update_data spot_update now =
       if_not_None (upd_address spot_update) Set_address
     @ if_not_None (upd_latitude spot_update) Set_latitude
     @ if_not_None (upd_longitude spot_update) Set_longitude
     @ if_not_None (upd_hourly_rate spot_update) Set_hourly_rate
     @ if_not_None (upd_is_available spot_update) Set_is_available
     @ if_not_None (upd_availability_start spot_update) Set_availability_start
     @ if_not_None (upd_availability_end spot_update) Set_availability_end
     @ if_not_None (upd_max_vehicle_size spot_update) Set_max_vehicle_size
     @ if_not_None (upd_description spot_update) Set_description
     @ if_not_None (upd_image_url spot_update) Set_image_url
     @ [Set_updated_at now]"

definition update_parking_spot ::
  "doc_id \<Rightarrow> ParkingSpotUpdate \<Rightarrow> uid \<Rightarrow> datetime \<Rightarrow> store
     \<Rightarrow> (http_error + ParkingSpot option) \<times> store" where
  "update_parking_spot sid spot_update firebase_uid now db =
     (case get_parking_spot_doc db sid of
        None \<Rightarrow> (Inl HTTP_404_NOT_FOUND, db)
      | Some existing_spot \<Rightarrow>
          if owner_id existing_spot \<noteq> firebase_uid then (Inl HTTP_403_FORBIDDEN, db)
          else
            let update_data = prepare_update_data spot_update now;
                (success, db') = update_parking_spot_doc db sid (merge_update_data update_data)
            in if \<not> success then (Inl HTTP_500_INTERNAL_SERVER_ERROR, db')
               else (Inr (get_parking_spot_doc db' sid), db'))"

definition delete_parking_spot :: "doc_id \<Rightarrow> uid \<Rightarrow> store \<Rightarrow> (http_error + unit) \<times> store" where
  "delete_parking_spot sid firebase_uid db =
     (case get_parking_spot_doc db sid of
        None \<Rightarrow> (Inl HTTP_404_NOT_FOUND, db)
      | Some existing_spot \<Rightarrow>
          if owner_id existing_spot \<noteq> firebase_uid then (Inl HTTP_403_FORBIDDEN, db)
          else
            let (success, db') = delete_parking_spot_doc db sid
            in if \<not> success then (Inl HTTP_500_INTERNAL_SERVER_ERROR, db')
               else (Inr (), db'))"

subsection \<open>Distance\<close>

text \<open>\<^verbatim>\<open>math.sqrt\<close> raises \<^verbatim>\<open>ValueError\<close> on a negative argument (the value \<open>None\<close>).\<close>

definition math_sqrt :: "float_arith \<Rightarrow> real \<Rightarrow> real option" where
  "math_sqrt fa x = (if x < 0 then None else Some (math_sqrt_value fa x))"

definition calculate_distance ::
  "float_arith \<Rightarrow> real \<Rightarrow> real \<Rightarrow> real \<Rightarrow> real \<Rightarrow> real option" where
  "calculate_distance fa lat1 lon1 lat2 lon2 =
     (let R = 6371000;
          lat1_rad = math_radians fa lat1;
          lon1_rad = math_radians fa lon1;
          lat2_rad = math_radians fa lat2;
          lon2_rad = math_radians fa lon2;
          dlat = float_sub fa lat2_rad lat1_rad;
          dlon = float_sub fa lon2_rad lon1_rad;
          a = float_add fa
                (float_pow fa (math_sin fa (float_truediv fa dlat 2)) 2)
                (float_mul fa
                   (float_mul fa (math_cos fa lat1_rad) (math_cos fa lat2_rad))
                   (float_pow fa (math_sin fa (float_truediv fa dlon 2)) 2))
      in case math_sqrt fa a of
           None \<Rightarrow> None
         | Some sqrt_a \<Rightarrow>
             (case math_sqrt fa (float_sub fa 1 a) of
                None \<Rightarrow> None
              | Some sqrt_1a \<Rightarrow>
                  Some (float_mul fa R (float_mul fa 2 (math_atan2 fa sqrt_a sqrt_1a)))))"

text \<open>
  Exact arithmetic, in which nothing is rounded: the two-argument arctangent with values in
  \<open>(-\<pi>, \<pi>]\<close>, the conversion from degrees, and the arithmetic made of them and of the
  operations on real numbers.
\<close>

definition atan2 :: "real \<Rightarrow> real \<Rightarrow> real" where
  "atan2 y x =
     (if 0 < x then arctan (y / x)
      else if x < 0 then (if 0 \<le> y then arctan (y / x) + pi else arctan (y / x) - pi)
      else if 0 < y then pi / 2
      else if y < 0 then - (pi / 2)
      else 0)"

definition radians :: "real \<Rightarrow> real" where
  "radians x = x * (pi / 180)"

definition exact_arith :: float_arith where
  "exact_arith = \<lparr> float_add = (+), float_sub = (-), float_mul = (*), float_truediv = (/),
     float_pow = (^), math_radians = radians, math_sin = sin, math_cos = cos,
     math_sqrt_value = sqrt, math_atan2 = atan2 \<rparr>"

text \<open>
  The Haversine formula as the specification words it, with the Earth radius of
  6,371,000 metres, on coordinates in degrees and in exact arithmetic: \<open>a\<close> is
  \<^verbatim>\<open>sin^2(dlat/2) + cos(lat1) * cos(lat2) * sin^2(dlon/2)\<close> and the distance is
  \<^verbatim>\<open>2 * R * atan2(sqrt(a), sqrt(1 - a))\<close>.  It is compared with \<open>calculate_distance\<close> below.
\<close>

definition haversine_a :: "real \<Rightarrow> real \<Rightarrow> real \<Rightarrow> real \<Rightarrow> real" where
  "haversine_a lat1 lon1 lat2 lon2 =
     (sin ((radians lat2 - radians lat1) / 2))\<^sup>2
       + cos (radians lat1) * cos (radians lat2) * (sin ((radians lon2 - radians lon1) / 2))\<^sup>2"

definition haversine :: "real \<Rightarrow> real \<Rightarrow> real \<Rightarrow> real \<Rightarrow> real" where
  "haversine lat1 lon1 lat2 lon2 =
     (let a = haversine_a lat1 lon1 lat2 lon2
      in 2 * 6371000 * atan2 (sqrt a) (sqrt (1 - a)))"

subsection \<open>Listing with filters and pagination\<close>

text \<open>Truth value of an \<^verbatim>\<open>Optional[float]\<close> in a condition: \<^verbatim>\<open>None\<close> and \<^verbatim>\<open>0.0\<close> are false.\<close>

definition truthy :: "real option \<Rightarrow> bool" where
  "truthy x = (case x of None \<Rightarrow> False | Some v \<Rightarrow> v \<noteq> 0)"

text \<open>
  One pass of the loop body for one spot: \<open>Some False\<close> is \<^verbatim>\<open>continue\<close>, \<open>Some True\<close> is
  \<^verbatim>\<open>filtered_spots.append(spot)\<close>, \<open>None\<close> is an exception escaping the body.
\<close>

definition location_filter ::
  "float_arith \<Rightarrow> ParkingSpotSearch \<Rightarrow> ParkingSpot \<Rightarrow> bool option" where
  "location_filter fa search spot =
     (if truthy (search_latitude search) \<and> truthy (search_longitude search)
         \<and> truthy (search_radius search)
      then case calculate_distance fa (the (search_latitude search))
                  (the (search_longitude search)) (latitude spot) (longitude spot) of
             None \<Rightarrow> None
           | Some distance \<Rightarrow> Some (\<not> distance > the (search_radius search))
      else Some True)"

definition price_filter :: "ParkingSpotSearch \<Rightarrow> ParkingSpot \<Rightarrow> bool" where
  "price_filter search spot =
     (\<not> (truthy (max_price search) \<and> hourly_rate spot > the (max_price search)))"

definition vehicle_size_filter :: "ParkingSpotSearch \<Rightarrow> ParkingSpot \<Rightarrow> bool" where
  "vehicle_size_filter search spot =
     (\<not> (vehicle_size search \<noteq> None \<and> max_vehicle_size spot \<noteq> the (vehicle_size search)))"

definition time_filter :: "ParkingSpotSearch \<Rightarrow> ParkingSpot \<Rightarrow> bool option" where
  "time_filter search spot =
     (if search_start_time search \<noteq> None \<and> search_end_time search \<noteq> None
      then case datetime_gt (availability_start spot) (the (search_start_time search)) of
             None \<Rightarrow> None
           | Some True \<Rightarrow> Some False
           | Some False \<Rightarrow>
               (case datetime_lt (availability_end spot) (the (search_end_time search)) of
                  None \<Rightarrow> None
                | Some True \<Rightarrow> Some False
                | Some False \<Rightarrow> Some True)
      else Some True)"

text \<open>The four tests in the order of the source; a test is made only if the ones before it
  did not \<^verbatim>\<open>continue\<close>.\<close>

definition keep_spot :: "float_arith \<Rightarrow> ParkingSpotSearch \<Rightarrow> ParkingSpot \<Rightarrow> bool option" where
  "keep_spot fa search spot =
     (case location_filter fa search spot of
        None \<Rightarrow> None
      | Some near \<Rightarrow>
          if \<not> near then Some False
          else if \<not> price_filter search spot then Some False
          else if \<not> vehicle_size_filter search spot then Some False
          else time_filter search spot)"

fun filter_spots ::
  "float_arith \<Rightarrow> ParkingSpotSearch \<Rightarrow> ParkingSpot list \<Rightarrow> ParkingSpot list option" where
  "filter_spots fa search [] = Some []"
| "filter_spots fa search (spot # spots) =
     (case keep_spot fa search spot of
        None \<Rightarrow> None
      | Some keep \<Rightarrow>
          (case filter_spots fa search spots of
             None \<Rightarrow> None
           | Some filtered_spots \<Rightarrow> Some (if keep then spot # filtered_spots else filtered_spots)))"

text \<open>\<^verbatim>\<open>xs[a:b]\<close>: a negative bound counts from the end, and both bounds are clamped.\<close>

definition py_slice :: "'a list \<Rightarrow> int \<Rightarrow> int \<Rightarrow> 'a list" where
  "py_slice xs a b =
     (let n = int (length xs);
          lo = (if a < 0 then max (a + n) 0 else min a n);
          hi = (if b < 0 then max (b + n) 0 else min b n)
      in take (nat (hi - lo)) (drop (nat lo) xs))"

text \<open>The response data: the page of spots and the \<^verbatim>\<open>pagination\<close> block.\<close>

record spots_page =
  resp_spots :: "ParkingSpot list"
  resp_total :: int
  resp_page :: int
  resp_size :: int
  resp_pages :: int

text \<open>\<^verbatim>\<open>if search: ...\<close>: without a search object the list is left as it is.\<close>

definition apply_search_filters ::
  "float_arith \<Rightarrow> ParkingSpotSearch option \<Rightarrow> ParkingSpot list \<Rightarrow> ParkingSpot list option"
  where
  "apply_search_filters fa search spots_list =
     (case search of None \<Rightarrow> Some spots_list | Some s \<Rightarrow> filter_spots fa s spots_list)"

text \<open>The query parameters \<open>page\<close> (at least 1) and \<open>size\<close> (from 1 to 100) are checked
  before the body runs; an exception in the body is answered with status 500.  The number of
  pages is \<^verbatim>\<open>math.ceil(total / size)\<close>, the quotient of two integers: it is written here as
  the ceiling of the exact quotient, which the ceiling of the rounded quotient equals for
  every list that fits in memory (a quotient that is not an integer is at least 1/100 away
  from the integers, far more than its rounding error).\<close>

definition get_parking_spots ::
  "float_arith \<Rightarrow> ParkingSpotSearch option \<Rightarrow> int \<Rightarrow> int \<Rightarrow> store
     \<Rightarrow> http_error + spots_page" where
  "get_parking_spots fa search page sz db =
     (if page < 1 \<or> sz < 1 \<or> sz > 100 then Inl HTTP_422_UNPROCESSABLE_ENTITY
      else
        case apply_search_filters fa search (get_available_parking_spots db) of
          None \<Rightarrow> Inl HTTP_500_INTERNAL_SERVER_ERROR
        | Some spots_list \<Rightarrow>
            let total_n = int (length spots_list);
                start_idx = (page - 1) * sz;
                end_idx = start_idx + sz;
                paginated_spots = py_slice spots_list start_idx end_idx
            in Inr \<lparr> resp_spots = paginated_spots, resp_total = total_n, resp_page = page,
                     resp_size = sz, resp_pages = \<lceil>real_of_int total_n / real_of_int sz\<rceil> \<rparr>)"

subsection \<open>Nearby spots\<close>

text \<open>Each kept spot is paired with its distance (the source stores it in the spot
  under the key \<^verbatim>\<open>distance\<close>).  \<^verbatim>\<open>list.sort(key=...)\<close> is a stable sort.\<close>

fun nearby_loop ::
  "float_arith \<Rightarrow> real \<Rightarrow> real \<Rightarrow> real \<Rightarrow> ParkingSpot list
     \<Rightarrow> (ParkingSpot \<times> real) list option" where
  "nearby_loop fa lat lon radius [] = Some []"
| "nearby_loop fa lat lon radius (spot # spots) =
     (case calculate_distance fa lat lon (latitude spot) (longitude spot) of
        None \<Rightarrow> None
      | Some distance \<Rightarrow>
          (case nearby_loop fa lat lon radius spots of
             None \<Rightarrow> None
           | Some nearby_spots \<Rightarrow>
               Some (if distance \<le> radius then (spot, distance) # nearby_spots
                     else nearby_spots)))"

definition get_nearby_parking_spots ::
  "float_arith \<Rightarrow> real \<Rightarrow> real \<Rightarrow> real \<Rightarrow> store \<Rightarrow> http_error + (ParkingSpot \<times> real) list"
  where
  "get_nearby_parking_spots fa lat lon radius db =
     (if lat < -90 \<or> lat > 90 \<or> lon < -180 \<or> lon > 180 \<or> radius < 100 \<or> radius > 50000
      then Inl HTTP_422_UNPROCESSABLE_ENTITY
      else case nearby_loop fa lat lon radius (get_available_parking_spots db) of
             None \<Rightarrow> Inl HTTP_500_INTERNAL_SERVER_ERROR
           | Some nearby_spots \<Rightarrow> Inr (sort_key snd nearby_spots))"

section \<open>Example data\<close>

text \<open>The store returns aware datetimes; \<^verbatim>\<open>datetime.utcnow()\<close> is naive.\<close>

definition example_spot :: ParkingSpot where
  "example_spot = \<lparr> spot_doc_id = ''s1'', address = ''1 Main St'', latitude = 0, longitude = 90,
     hourly_rate = 10, is_available = True, availability_start = Aware 0,
     availability_end = Aware 36000000000, max_vehicle_size = any, description = ''driveway'',
     image_url = None, owner_id = ''owner'', owner_name = ''Olive'',
     spot_created_at = Aware 0, updated_at = Aware 0 \<rparr>"

definition example_request :: BookingCreate where
  "example_request = \<lparr> req_spot_id = ''s1'', req_start_time = Aware 3600000000,
     req_end_time = Aware 10800000000, req_message = None, req_finder_id = ''finder'',
     req_finder_name = ''Fay'', req_finder_email = ''fay@example.org'' \<rparr>"

definition naive_request :: BookingCreate where
  "naive_request = \<lparr> req_spot_id = ''s1'', req_start_time = Naive 3600000000,
     req_end_time = Naive 10800000000, req_message = None, req_finder_id = ''finder'',
     req_finder_name = ''Fay'', req_finder_email = ''fay@example.org'' \<rparr>"

definition example_store :: store where
  "example_store = \<lparr> users = [], parking_spots = [(''s1'', example_spot)], bookings = [] \<rparr>"

definition example_booking :: "BookingStatus \<Rightarrow> Booking" where
  "example_booking st = \<lparr> booking_doc_id = ''b1'', spot_id = ''s1'', finder_id = ''finder'',
     finder_name = ''Fay'', finder_email = ''fay@example.org'', start_time = Aware 3600000000,
     end_time = Aware 10800000000, total_amount = 20, status = st, message = None,
     created_at = Aware 5, owner_response = None, responded_at = None \<rparr>"

definition example_store_with :: "BookingStatus \<Rightarrow> store" where
  "example_store_with st =
     \<lparr> users = [], parking_spots = [(''s1'', example_spot)],
       bookings = [(''b1'', example_booking st)] \<rparr>"

definition example_update :: ParkingSpotUpdate where
  "example_update = \<lparr> upd_address = None, upd_latitude = None, upd_longitude = None,
     upd_hourly_rate = Some 12, upd_is_available = None, upd_availability_start = None,
     upd_availability_end = None, upd_max_vehicle_size = None, upd_description = None,
     upd_image_url = None \<rparr>"

definition search_price_zero :: ParkingSpotSearch where
  "search_price_zero = \<lparr> search_latitude = None, search_longitude = None, search_radius = None,
     max_price = Some 0, vehicle_size = None, search_start_time = None,
     search_end_time = None \<rparr>"

definition search_equator :: ParkingSpotSearch where
  "search_equator = \<lparr> search_latitude = Some 0, search_longitude = Some 180,
     search_radius = Some 1000, max_price = None, vehicle_size = None,
     search_start_time = None, search_end_time = None \<rparr>"

definition search_naive_times :: ParkingSpotSearch where
  "search_naive_times = \<lparr> search_latitude = None, search_longitude = None,
     search_radius = None, max_price = None, vehicle_size = None,
     search_start_time = Some (Naive 3600000000),
     search_end_time = Some (Naive 10800000000) \<rparr>"

text \<open>Four spots on the equator, in the order in which the store lists them: one a quarter
  of the way round the Earth from longitude 90, one a quarter of a degree from it, and two
  at longitude 90 itself.\<close>

definition spot_at :: "doc_id \<Rightarrow> real \<Rightarrow> ParkingSpot" where
  "spot_at sid lon = example_spot\<lparr>spot_doc_id := sid, longitude := lon\<rparr>"

definition equator_store :: store where
  "equator_store = \<lparr> users = [],
     parking_spots = [(''far'', spot_at ''far'' 180), (''walk'', spot_at ''walk'' (361 / 4)),
                      (''here'', spot_at ''here'' 90), (''also'', spot_at ''also'' 90)],
     bookings = [] \<rparr>"

section \<open>Lookups and datetimes\<close>

lemma map_of_update_same: "map_of (AList.update k v al) k = Some v"
  by (simp add: update_conv')

lemma same_kind_lt: "same_kind a b \<Longrightarrow> \<exists>r. datetime_lt a b = Some r"
  by (cases a; cases b) simp_all

lemma same_kind_sub: "same_kind a b \<Longrightarrow> \<exists>d. datetime_sub a b = Some d"
  by (cases a; cases b) simp_all

lemma same_kind_sym: "same_kind a b \<Longrightarrow> same_kind b a"
  by (cases a; cases b) simp_all

section \<open>The handlers without their unreachable branches\<close>

text \<open>A handler fetches the document before it updates it, so the update finds it: the
  status 500 branch after the write is never taken, and each handler is a plain case
  distinction on the fetched documents.\<close>

lemma update_booking_Some:
  "get_booking_doc db bid = Some b \<Longrightarrow>
   update_booking db bid f = (True, db\<lparr>bookings := AList.update bid (f b) (bookings db)\<rparr>)"
  by (simp add: update_booking_def get_booking_doc_def)

lemma get_booking_doc_updated:
  "get_booking_doc (db\<lparr>bookings := AList.update bid b' (bookings db)\<rparr>) bid = Some b'"
  by (simp add: get_booking_doc_def map_of_update_same)

lemma get_parking_spot_doc_bookings_upd:
  "get_parking_spot_doc (db\<lparr>bookings := bs\<rparr>) sid = get_parking_spot_doc db sid"
  by (simp add: get_parking_spot_doc_def)

lemma approve_eq:
  "approve_booking_request bid msg u now db =
     (case get_booking_doc db bid of
        None \<Rightarrow> (Inl HTTP_404_NOT_FOUND, db)
      | Some b \<Rightarrow>
          if not_owned_by (get_parking_spot_doc db (spot_id b)) u then (Inl HTTP_403_FORBIDDEN, db)
          else if status b \<noteq> pending then (Inl HTTP_400_BAD_REQUEST, db)
          else (let b' = b\<lparr>status := approved, owner_response := msg, responded_at := Some now\<rparr>
                in (Inr (Some b'), db\<lparr>bookings := AList.update bid b' (bookings db)\<rparr>)))"
  by (simp add: approve_booking_request_def update_booking_Some get_booking_doc_updated
      Let_def split: option.splits)

lemma reject_eq:
  "reject_booking_request bid msg u now db =
     (case get_booking_doc db bid of
        None \<Rightarrow> (Inl HTTP_404_NOT_FOUND, db)
      | Some b \<Rightarrow>
          if not_owned_by (get_parking_spot_doc db (spot_id b)) u then (Inl HTTP_403_FORBIDDEN, db)
          else if status b \<noteq> pending then (Inl HTTP_400_BAD_REQUEST, db)
          else (let b' = b\<lparr>status := rejected, owner_response := msg, responded_at := Some now\<rparr>
                in (Inr (Some b'), db\<lparr>bookings := AList.update bid b' (bookings db)\<rparr>)))"
  by (simp add: reject_booking_request_def update_booking_Some get_booking_doc_updated
      Let_def split: option.splits)

lemma cancel_eq:
  "cancel_booking_request bid u now db =
     (case get_booking_doc db bid of
        None \<Rightarrow> (Inl HTTP_404_NOT_FOUND, db)
      | Some b \<Rightarrow>
          if finder_id b \<noteq> u then (Inl HTTP_403_FORBIDDEN, db)
          else if status b \<noteq> pending \<and> status b \<noteq> approved then (Inl HTTP_400_BAD_REQUEST, db)
          else (let b' = b\<lparr>status := cancelled, responded_at := Some now\<rparr>
                in (Inr (Some b'), db\<lparr>bookings := AList.update bid b' (bookings db)\<rparr>)))"
  by (simp add: cancel_booking_request_def update_booking_Some get_booking_doc_updated
      Let_def split: option.splits)

lemma delete_eq:
  "delete_booking bid u db =
     (case get_booking_doc db bid of
        None \<Rightarrow> (Inl HTTP_404_NOT_FOUND, db)
      | Some b \<Rightarrow>
          if finder_id b \<noteq> u \<and> not_owned_by (get_parking_spot_doc db (spot_id b)) u
          then (Inl HTTP_403_FORBIDDEN, db)
          else if status b \<noteq> cancelled \<and> status b \<noteq> completed then (Inl HTTP_400_BAD_REQUEST, db)
          else (Inr (), db\<lparr>bookings := AList.delete bid (bookings db)\<rparr>))"
  by (simp add: delete_booking_def delete_booking_doc_def split: option.splits)

lemma booking_error_leaves_store:
  "fst (create_booking_request fa booking_data u now new_id db) = Inl e
     \<Longrightarrow> snd (create_booking_request fa booking_data u now new_id db) = db"
  "fst (approve_booking_request bid msg u now db) = Inl e
     \<Longrightarrow> snd (approve_booking_request bid msg u now db) = db"
  "fst (reject_booking_request bid msg u now db) = Inl e
     \<Longrightarrow> snd (reject_booking_request bid msg u now db) = db"
  "fst (cancel_booking_request bid u now db) = Inl e
     \<Longrightarrow> snd (cancel_booking_request bid u now db) = db"
  "fst (delete_booking bid u db) = Inl e \<Longrightarrow> snd (delete_booking bid u db) = db"
  by (auto simp: create_booking_request_def create_booking_def approve_eq reject_eq cancel_eq
      delete_eq Let_def split: option.splits if_splits bool.splits)

lemma update_parking_spot_doc_Some:
  "get_parking_spot_doc db sid = Some sp \<Longrightarrow>
   update_parking_spot_doc db sid f
     = (True, db\<lparr>parking_spots := AList.update sid (f sp) (parking_spots db)\<rparr>)"
  by (simp add: update_parking_spot_doc_def get_parking_spot_doc_def)

section \<open>Booking status state machine\<close>

text \<open>
  Claim C2.  For a stored booking: called by the owner of the booked spot, approve and reject
  answer 400 unless the status is pending; called by the finder, cancel answers 400 unless
  the status is pending or approved; called by either party, delete answers 400 unless the
  status is cancelled or completed.  Whoever calls, none of the four succeeds from another
  status.  A successful approve, reject or cancel stores the new status and sets
  responded_at to the time of the call, and the same call repeated on the result answers
  400.  A rejected booking is deleted by no caller.
\<close>

theorem booking_state_machine:
  assumes "get_booking_doc db booking_id = Some booking"
  shows
    "(\<not> not_owned_by (get_parking_spot_doc db (spot_id booking)) owner \<longrightarrow>
        (status booking \<noteq> pending \<longrightarrow>
           approve_booking_request booking_id msg owner now db = (Inl HTTP_400_BAD_REQUEST, db)
         \<and> reject_booking_request booking_id msg owner now db = (Inl HTTP_400_BAD_REQUEST, db))
      \<and> (status booking = pending \<longrightarrow>
           (\<exists>db' b'. approve_booking_request booking_id msg owner now db = (Inr (Some b'), db')
              \<and> get_booking_doc db' booking_id = Some b'
              \<and> status b' = approved \<and> responded_at b' = Some now
              \<and> approve_booking_request booking_id msg2 owner now2 db'
                    = (Inl HTTP_400_BAD_REQUEST, db'))
         \<and> (\<exists>db' b'. reject_booking_request booking_id msg owner now db = (Inr (Some b'), db')
              \<and> get_booking_doc db' booking_id = Some b'
              \<and> status b' = rejected \<and> responded_at b' = Some now
              \<and> reject_booking_request booking_id msg2 owner now2 db'
                    = (Inl HTTP_400_BAD_REQUEST, db'))))
   \<and> (finder_id booking = caller \<longrightarrow>
        (status booking \<noteq> pending \<and> status booking \<noteq> approved \<longrightarrow>
           cancel_booking_request booking_id caller now db = (Inl HTTP_400_BAD_REQUEST, db))
      \<and> (status booking = pending \<or> status booking = approved \<longrightarrow>
           (\<exists>db' b'. cancel_booking_request booking_id caller now db = (Inr (Some b'), db')
              \<and> get_booking_doc db' booking_id = Some b'
              \<and> status b' = cancelled \<and> responded_at b' = Some now
              \<and> cancel_booking_request booking_id caller now2 db'
                    = (Inl HTTP_400_BAD_REQUEST, db'))))
   \<and> ((finder_id booking = party
         \<or> \<not> not_owned_by (get_parking_spot_doc db (spot_id booking)) party) \<longrightarrow>
        (status booking \<noteq> cancelled \<and> status booking \<noteq> completed \<longrightarrow>
           delete_booking booking_id party db = (Inl HTTP_400_BAD_REQUEST, db))
      \<and> (status booking = cancelled \<or> status booking = completed \<longrightarrow>
           (\<exists>db'. delete_booking booking_id party db = (Inr (), db')
              \<and> get_booking_doc db' booking_id = None)))
   \<and> (\<forall>u. (status booking \<noteq> pending \<longrightarrow>
               (\<exists>e. approve_booking_request booking_id msg u now db = (Inl e, db))
             \<and> (\<exists>e. reject_booking_request booking_id msg u now db = (Inl e, db)))
          \<and> (status booking \<noteq> pending \<and> status booking \<noteq> approved \<longrightarrow>
               (\<exists>e. cancel_booking_request booking_id u now db = (Inl e, db)))
          \<and> (status booking \<noteq> cancelled \<and> status booking \<noteq> completed \<longrightarrow>
               (\<exists>e. delete_booking booking_id u db = (Inl e, db))))
   \<and> (status booking = rejected \<longrightarrow>
        (\<forall>u. delete_booking booking_id u db = (Inl HTTP_403_FORBIDDEN, db)
           \<or> delete_booking booking_id u db = (Inl HTTP_400_BAD_REQUEST, db)))"
proof -
  have F: "\<forall>u. (status booking \<noteq> pending \<longrightarrow>
               (\<exists>e. approve_booking_request booking_id msg u now db = (Inl e, db))
             \<and> (\<exists>e. reject_booking_request booking_id msg u now db = (Inl e, db)))
          \<and> (status booking \<noteq> pending \<and> status booking \<noteq> approved \<longrightarrow>
               (\<exists>e. cancel_booking_request booking_id u now db = (Inl e, db)))
          \<and> (status booking \<noteq> cancelled \<and> status booking \<noteq> completed \<longrightarrow>
               (\<exists>e. delete_booking booking_id u db = (Inl e, db)))"
    using assms by (simp add: approve_eq reject_eq cancel_eq delete_eq)
  have A: "\<not> not_owned_by (get_parking_spot_doc db (spot_id booking)) owner \<longrightarrow>
        (status booking \<noteq> pending \<longrightarrow>
           approve_booking_request booking_id msg owner now db = (Inl HTTP_400_BAD_REQUEST, db)
         \<and> reject_booking_request booking_id msg owner now db = (Inl HTTP_400_BAD_REQUEST, db))"
    using assms by (simp add: approve_eq reject_eq)
  have B1: "\<not> not_owned_by (get_parking_spot_doc db (spot_id booking)) owner \<longrightarrow>
      status booking = pending \<longrightarrow>
           (\<exists>db' b'. approve_booking_request booking_id msg owner now db = (Inr (Some b'), db')
              \<and> get_booking_doc db' booking_id = Some b'
              \<and> status b' = approved \<and> responded_at b' = Some now
              \<and> approve_booking_request booking_id msg2 owner now2 db'
                    = (Inl HTTP_400_BAD_REQUEST, db'))"
    using assms
    by (simp add: approve_eq get_booking_doc_updated get_parking_spot_doc_bookings_upd Let_def)
  have B2: "\<not> not_owned_by (get_parking_spot_doc db (spot_id booking)) owner \<longrightarrow>
      status booking = pending \<longrightarrow>
          (\<exists>db' b'. reject_booking_request booking_id msg owner now db = (Inr (Some b'), db')
              \<and> get_booking_doc db' booking_id = Some b'
              \<and> status b' = rejected \<and> responded_at b' = Some now
              \<and> reject_booking_request booking_id msg2 owner now2 db'
                    = (Inl HTTP_400_BAD_REQUEST, db'))"
    using assms
    by (simp add: reject_eq get_booking_doc_updated get_parking_spot_doc_bookings_upd Let_def)
  have C: "finder_id booking = caller \<longrightarrow>
        (status booking \<noteq> pending \<and> status booking \<noteq> approved \<longrightarrow>
           cancel_booking_request booking_id caller now db = (Inl HTTP_400_BAD_REQUEST, db))
      \<and> (status booking = pending \<or> status booking = approved \<longrightarrow>
           (\<exists>db' b'. cancel_booking_request booking_id caller now db = (Inr (Some b'), db')
              \<and> get_booking_doc db' booking_id = Some b'
              \<and> status b' = cancelled \<and> responded_at b' = Some now
              \<and> cancel_booking_request booking_id caller now2 db'
                    = (Inl HTTP_400_BAD_REQUEST, db')))"
    using assms
    by (auto simp add: cancel_eq get_booking_doc_updated Let_def)
  have D: "(finder_id booking = party
         \<or> \<not> not_owned_by (get_parking_spot_doc db (spot_id booking)) party) \<longrightarrow>
        (status booking \<noteq> cancelled \<and> status booking \<noteq> completed \<longrightarrow>
           delete_booking booking_id party db = (Inl HTTP_400_BAD_REQUEST, db))
      \<and> (status booking = cancelled \<or> status booking = completed \<longrightarrow>
           (\<exists>db'. delete_booking booking_id party db = (Inr (), db')
              \<and> get_booking_doc db' booking_id = None))"
    using assms
    by (auto simp add: delete_eq get_booking_doc_def delete_conv')
  have E: "status booking = rejected \<longrightarrow>
        (\<forall>u. delete_booking booking_id u db = (Inl HTTP_403_FORBIDDEN, db)
           \<or> delete_booking booking_id u db = (Inl HTTP_400_BAD_REQUEST, db))"
    using assms by (simp add: delete_eq)
  from A B1 B2 C D E F show ?thesis by blast
qed

theorem booking_state_machine_witness:
  "get_booking_doc (example_store_with pending) ''b1'' = Some (example_booking pending)
   \<and> (\<exists>db' b'. approve_booking_request ''b1'' None ''owner'' (Naive 9) (example_store_with pending)
                  = (Inr (Some b'), db')
          \<and> status b' = approved \<and> responded_at b' = Some (Naive 9)
          \<and> approve_booking_request ''b1'' None ''owner'' (Naive 10) db' = (Inl HTTP_400_BAD_REQUEST, db'))
   \<and> delete_booking ''b1'' ''finder'' (example_store_with rejected)
        = (Inl HTTP_400_BAD_REQUEST, example_store_with rejected)"
proof -
  have h1: "get_booking_doc (example_store_with pending) ''b1'' = Some (example_booking pending)"
    by (simp add: example_store_with_def get_booking_doc_def)
  have h2: "get_booking_doc (example_store_with rejected) ''b1'' = Some (example_booking rejected)"
    by (simp add: example_store_with_def get_booking_doc_def)
  have own: "\<not> not_owned_by (get_parking_spot_doc (example_store_with st)
      (spot_id (example_booking st'))) ''owner''" for st st'
    by (simp add: example_store_with_def example_booking_def example_spot_def
        get_parking_spot_doc_def not_owned_by_def)
  have st: "status (example_booking st) = st" "finder_id (example_booking st) = ''finder''" for st
    by (simp_all add: example_booking_def)
  show ?thesis
    using h1 own st
      booking_state_machine [OF h1, of "''owner''" None "Naive 9" None "Naive 10" "''finder''" "''finder''"]
      booking_state_machine [OF h2, of "''owner''" None "Naive 9" None "Naive 10" "''finder''" "''finder''"]
    by auto
qed

section \<open>Ownership checks\<close>

text \<open>
  Claim C3.  Updating or deleting an existing spot as an identity other than its owner,
  approving or rejecting a stored booking as an identity other than the owner of the booked
  spot, and cancelling a stored booking as an identity other than its finder all answer 403
  whatever the payload, the response text and the booking's status are, and leave the store
  as it was.
\<close>

theorem ownership_forbidden:
  "(get_parking_spot_doc db sid = Some spot \<and> owner_id spot \<noteq> firebase_uid \<longrightarrow>
       update_parking_spot sid spot_update firebase_uid now db = (Inl HTTP_403_FORBIDDEN, db)
     \<and> delete_parking_spot sid firebase_uid db = (Inl HTTP_403_FORBIDDEN, db))
   \<and> (get_booking_doc db bid = Some booking
        \<and> get_parking_spot_doc db (spot_id booking) = Some booked_spot
        \<and> owner_id booked_spot \<noteq> firebase_uid \<longrightarrow>
       approve_booking_request bid msg firebase_uid now db = (Inl HTTP_403_FORBIDDEN, db)
     \<and> reject_booking_request bid msg firebase_uid now db = (Inl HTTP_403_FORBIDDEN, db))
   \<and> (get_booking_doc db bid = Some booking \<and> finder_id booking \<noteq> firebase_uid \<longrightarrow>
       cancel_booking_request bid firebase_uid now db = (Inl HTTP_403_FORBIDDEN, db))"
  by (simp add: update_parking_spot_def delete_parking_spot_def approve_eq reject_eq cancel_eq
      not_owned_by_def)

theorem ownership_forbidden_witness:
  "update_parking_spot ''s1'' example_update ''mallory'' (Naive 9) (example_store_with pending)
      = (Inl HTTP_403_FORBIDDEN, example_store_with pending)
   \<and> delete_parking_spot ''s1'' ''mallory'' (example_store_with pending)
      = (Inl HTTP_403_FORBIDDEN, example_store_with pending)
   \<and> approve_booking_request ''b1'' None ''mallory'' (Naive 9) (example_store_with pending)
      = (Inl HTTP_403_FORBIDDEN, example_store_with pending)
   \<and> reject_booking_request ''b1'' None ''mallory'' (Naive 9) (example_store_with pending)
      = (Inl HTTP_403_FORBIDDEN, example_store_with pending)
   \<and> cancel_booking_request ''b1'' ''mallory'' (Naive 9) (example_store_with pending)
      = (Inl HTTP_403_FORBIDDEN, example_store_with pending)"
proof -
  have h1: "get_parking_spot_doc (example_store_with pending) ''s1'' = Some example_spot"
    by (simp add: example_store_with_def get_parking_spot_doc_def)
  have h2: "get_booking_doc (example_store_with pending) ''b1'' = Some (example_booking pending)"
    by (simp add: example_store_with_def get_booking_doc_def)
  have h3: "spot_id (example_booking pending) = ''s1''"
    "finder_id (example_booking pending) \<noteq> ''mallory''"
    "owner_id example_spot \<noteq> ''mallory''"
    by (simp_all add: example_booking_def example_spot_def)
  show ?thesis
    using h1 h2 h3
      ownership_forbidden [of "example_store_with pending" "''s1''" example_spot "''mallory''"
        example_update "Naive 9" "''b1''" "example_booking pending" example_spot None]
    by simp
qed

section \<open>Failed booking operations change nothing\<close>

text \<open>
  Claim C10.  When create, approve, reject, cancel or delete answers 404, 403 or 400, the
  store after the call (all three collections) is the store before the call.
\<close>

theorem failed_booking_operation_atomic:
  assumes "e \<in> {HTTP_404_NOT_FOUND, HTTP_403_FORBIDDEN, HTTP_400_BAD_REQUEST}"
  shows
    "(fst (create_booking_request fa booking_data u now new_id db) = Inl e
        \<longrightarrow> snd (create_booking_request fa booking_data u now new_id db) = db)
   \<and> (fst (approve_booking_request bid msg u now db) = Inl e
        \<longrightarrow> snd (approve_booking_request bid msg u now db) = db)
   \<and> (fst (reject_booking_request bid msg u now db) = Inl e
        \<longrightarrow> snd (reject_booking_request bid msg u now db) = db)
   \<and> (fst (cancel_booking_request bid u now db) = Inl e
        \<longrightarrow> snd (cancel_booking_request bid u now db) = db)
   \<and> (fst (delete_booking bid u db) = Inl e \<longrightarrow> snd (delete_booking bid u db) = db)"
  by (simp add: booking_error_leaves_store)

theorem failed_booking_operation_atomic_witness:
  "HTTP_400_BAD_REQUEST \<in> {HTTP_404_NOT_FOUND, HTTP_403_FORBIDDEN, HTTP_400_BAD_REQUEST}
   \<and> fst (approve_booking_request ''b1'' None ''owner'' (Naive 9) (example_store_with approved))
       = Inl HTTP_400_BAD_REQUEST
   \<and> snd (approve_booking_request ''b1'' None ''owner'' (Naive 9) (example_store_with approved))
       = example_store_with approved"
proof -
  have h: "HTTP_400_BAD_REQUEST \<in> {HTTP_404_NOT_FOUND, HTTP_403_FORBIDDEN, HTTP_400_BAD_REQUEST}"
    by simp
  have f: "fst (approve_booking_request ''b1'' None ''owner'' (Naive 9) (example_store_with approved))
       = Inl HTTP_400_BAD_REQUEST"
    by (simp add: approve_eq example_store_with_def example_booking_def example_spot_def
        get_booking_doc_def get_parking_spot_doc_def not_owned_by_def)
  show ?thesis
    using h f failed_booking_operation_atomic [OF h, of exact_arith example_request "''owner''"
        "Naive 9" "''b2''"
        "example_store_with approved" "''b1''" None]
    by simp
qed

section \<open>Spot update\<close>

lemma fold_if_not_None:
  "fold set_field (if_not_None va0 Set_address) sp
     = sp\<lparr>address := (case va0 of None \<Rightarrow> address sp | Some x \<Rightarrow> x)\<rparr>"
  "fold set_field (if_not_None vl1 Set_latitude) sp
     = sp\<lparr>latitude := (case vl1 of None \<Rightarrow> latitude sp | Some x \<Rightarrow> x)\<rparr>"
  "fold set_field (if_not_None vl2 Set_longitude) sp
     = sp\<lparr>longitude := (case vl2 of None \<Rightarrow> longitude sp | Some x \<Rightarrow> x)\<rparr>"
  "fold set_field (if_not_None vh3 Set_hourly_rate) sp
     = sp\<lparr>hourly_rate := (case vh3 of None \<Rightarrow> hourly_rate sp | Some x \<Rightarrow> x)\<rparr>"
  "fold set_field (if_not_None vi4 Set_is_available) sp
     = sp\<lparr>is_available := (case vi4 of None \<Rightarrow> is_available sp | Some x \<Rightarrow> x)\<rparr>"
  "fold set_field (if_not_None va5 Set_availability_start) sp
     = sp\<lparr>availability_start := (case va5 of None \<Rightarrow> availability_start sp | Some x \<Rightarrow> x)\<rparr>"
  "fold set_field (if_not_None va6 Set_availability_end) sp
     = sp\<lparr>availability_end := (case va6 of None \<Rightarrow> availability_end sp | Some x \<Rightarrow> x)\<rparr>"
  "fold set_field (if_not_None vm7 Set_max_vehicle_size) sp
     = sp\<lparr>max_vehicle_size := (case vm7 of None \<Rightarrow> max_vehicle_size sp | Some x \<Rightarrow> x)\<rparr>"
  "fold set_field (if_not_None vd8 Set_description) sp
     = sp\<lparr>description := (case vd8 of None \<Rightarrow> description sp | Some x \<Rightarrow> x)\<rparr>"
  "fold set_field (if_not_None vi9 Set_image_url) sp
     = sp\<lparr>image_url := (case vi9 of None \<Rightarrow> image_url sp | Some x \<Rightarrow> Some x)\<rparr>"
  by (simp_all add: if_not_None_def split: option.splits)

lemma merge_prepared_update_data:
  "merge_update_data (prepare_update_data u now) sp =
     sp\<lparr> address := (case upd_address u of None \<Rightarrow> address sp | Some x \<Rightarrow> x),
         latitude := (case upd_latitude u of None \<Rightarrow> latitude sp | Some x \<Rightarrow> x),
         longitude := (case upd_longitude u of None \<Rightarrow> longitude sp | Some x \<Rightarrow> x),
         hourly_rate := (case upd_hourly_rate u of None \<Rightarrow> hourly_rate sp | Some x \<Rightarrow> x),
         is_available := (case upd_is_available u of None \<Rightarrow> is_available sp | Some x \<Rightarrow> x),
         availability_start :=
           (case upd_availability_start u of None \<Rightarrow> availability_start sp | Some x \<Rightarrow> x),
         availability_end :=
           (case upd_availability_end u of None \<Rightarrow> availability_end sp | Some x \<Rightarrow> x),
         max_vehicle_size :=
           (case upd_max_vehicle_size u of None \<Rightarrow> max_vehicle_size sp | Some x \<Rightarrow> x),
         description := (case upd_description u of None \<Rightarrow> description sp | Some x \<Rightarrow> x),
         image_url := (case upd_image_url u of None \<Rightarrow> image_url sp | Some x \<Rightarrow> Some x),
         updated_at := now \<rparr>"
  by (simp add: merge_update_data_def prepare_update_data_def fold_if_not_None
      cong: option.case_cong)

text \<open>
  Claim C9.  An update of an existing spot by its owner succeeds and stores a spot in which
  every field supplied in the payload (not \<^verbatim>\<open>None\<close>) has the payload's value, updated_at is
  the time of the call whether or not any field is supplied, and every other field (those
  not supplied, and id, owner and creation time, which the payload cannot name) has its
  previous value.
\<close>

theorem update_parking_spot_frame:
  assumes "get_parking_spot_doc db sid = Some spot" and "owner_id spot = firebase_uid"
  shows "\<exists>spot'.
      update_parking_spot sid spot_update firebase_uid now db
        = (Inr (Some spot'), db\<lparr>parking_spots := AList.update sid spot' (parking_spots db)\<rparr>)
    \<and> address spot' = (case upd_address spot_update of None \<Rightarrow> address spot | Some v \<Rightarrow> v)
    \<and> latitude spot' = (case upd_latitude spot_update of None \<Rightarrow> latitude spot | Some v \<Rightarrow> v)
    \<and> longitude spot' = (case upd_longitude spot_update of None \<Rightarrow> longitude spot | Some v \<Rightarrow> v)
    \<and> hourly_rate spot'
        = (case upd_hourly_rate spot_update of None \<Rightarrow> hourly_rate spot | Some v \<Rightarrow> v)
    \<and> is_available spot'
        = (case upd_is_available spot_update of None \<Rightarrow> is_available spot | Some v \<Rightarrow> v)
    \<and> availability_start spot'
        = (case upd_availability_start spot_update of
             None \<Rightarrow> availability_start spot | Some v \<Rightarrow> v)
    \<and> availability_end spot'
        = (case upd_availability_end spot_update of
             None \<Rightarrow> availability_end spot | Some v \<Rightarrow> v)
    \<and> max_vehicle_size spot'
        = (case upd_max_vehicle_size spot_update of
             None \<Rightarrow> max_vehicle_size spot | Some v \<Rightarrow> v)
    \<and> description spot'
        = (case upd_description spot_update of None \<Rightarrow> description spot | Some v \<Rightarrow> v)
    \<and> image_url spot'
        = (case upd_image_url spot_update of None \<Rightarrow> image_url spot | Some v \<Rightarrow> Some v)
    \<and> updated_at spot' = now
    \<and> spot_doc_id spot' = spot_doc_id spot
    \<and> owner_id spot' = owner_id spot
    \<and> owner_name spot' = owner_name spot
    \<and> spot_created_at spot' = spot_created_at spot"
proof -
  let ?spot' = "merge_update_data (prepare_update_data spot_update now) spot"
  have "update_parking_spot sid spot_update firebase_uid now db
        = (Inr (Some ?spot'), db\<lparr>parking_spots := AList.update sid ?spot' (parking_spots db)\<rparr>)"
    using assms
    by (simp add: update_parking_spot_def update_parking_spot_doc_Some get_parking_spot_doc_def
        map_of_update_same Let_def)
  then show ?thesis
    by (simp add: merge_prepared_update_data)
qed

theorem update_parking_spot_frame_witness:
  "get_parking_spot_doc example_store ''s1'' = Some example_spot
   \<and> owner_id example_spot = ''owner''
   \<and> (\<exists>spot'. fst (update_parking_spot ''s1'' example_update ''owner'' (Naive 9) example_store)
                  = Inr (Some spot')
          \<and> hourly_rate spot' = 12 \<and> updated_at spot' = Naive 9
          \<and> address spot' = ''1 Main St'' \<and> is_available spot')"
proof -
  have h1: "get_parking_spot_doc example_store ''s1'' = Some example_spot"
    by (simp add: example_store_def get_parking_spot_doc_def)
  have h2: "owner_id example_spot = ''owner''"
    by (simp add: example_spot_def)
  show ?thesis
    using h1 h2 update_parking_spot_frame [OF h1 h2, of example_update "Naive 9"]
    by (auto simp: example_update_def example_spot_def)
qed

section \<open>Booking creation\<close>

text \<open>
  Claim C1, for datetimes of one kind.  When the requester is the authenticated identity, the
  spot exists, and the start and the end of the request are of the same kind (naive or aware)
  as each other and as the bounds of the spot's availability window, creating a booking
  answers 400 and leaves the store as it was if the spot is flagged unavailable, or the start
  is before the availability start, or the end is after the availability end.  Otherwise it
  succeeds: the new booking is stored with status pending, and its total amount is the float
  product of the hours and the spot's hourly rate, the hours being the seconds of the window
  divided by 3600 (a fraction in general, and negative when the end precedes the start: no
  duration check is made).
\<close>

theorem create_booking_request_comparable:
  assumes "req_finder_id booking_data = firebase_uid"
    and "get_parking_spot_doc db (req_spot_id booking_data) = Some spot"
    and "same_kind (req_start_time booking_data) (availability_start spot)"
    and "same_kind (req_end_time booking_data) (availability_end spot)"
    and "same_kind (req_end_time booking_data) (req_start_time booking_data)"
  shows "(if \<not> is_available spot
             \<or> datetime_lt (req_start_time booking_data) (availability_start spot) = Some True
             \<or> datetime_gt (req_end_time booking_data) (availability_end spot) = Some True
          then create_booking_request fa booking_data firebase_uid now new_id db
                 = (Inl HTTP_400_BAD_REQUEST, db)
          else (\<exists>db' b delta.
                 datetime_sub (req_end_time booking_data) (req_start_time booking_data) = Some delta
               \<and> create_booking_request fa booking_data firebase_uid now new_id db
                    = (Inr new_id, db')
               \<and> get_booking_doc db' new_id = Some b
               \<and> status b = pending
               \<and> total_amount b =
                   float_mul fa
                     (float_truediv fa (float_truediv fa (real_of_int delta) 1000000) 3600)
                     (hourly_rate spot)))"
proof -
  obtain r1 where r1: "datetime_lt (req_start_time booking_data) (availability_start spot) = Some r1"
    using same_kind_lt [OF assms(3)] by blast
  obtain r2 where r2: "datetime_gt (req_end_time booking_data) (availability_end spot) = Some r2"
    using same_kind_lt [OF same_kind_sym [OF assms(4)]] by (auto simp: datetime_gt_def)
  obtain delta where d: "datetime_sub (req_end_time booking_data) (req_start_time booking_data)
      = Some delta"
    using same_kind_sub [OF assms(5)] by blast
  show ?thesis
    using assms(1,2) r1 r2 d
    by (cases r1; cases r2)
      (simp_all add: create_booking_request_def create_booking_def get_booking_doc_def
        total_seconds_def map_of_update_same Let_def)
qed

text \<open>A rate of 10 per hour and a window of two hours give a total amount of 20 in exact
  arithmetic; the same window with start and end exchanged is accepted too, with a total
  amount of -20.\<close>

theorem create_booking_request_comparable_witness:
  "req_finder_id example_request = ''finder''
   \<and> get_parking_spot_doc example_store (req_spot_id example_request) = Some example_spot
   \<and> same_kind (req_start_time example_request) (availability_start example_spot)
   \<and> same_kind (req_end_time example_request) (availability_end example_spot)
   \<and> same_kind (req_end_time example_request) (req_start_time example_request)
   \<and> fst (create_booking_request exact_arith example_request ''finder'' (Naive 7) ''b1''
           example_store) = Inr ''b1''
   \<and> map_option total_amount
        (get_booking_doc
           (snd (create_booking_request exact_arith example_request ''finder'' (Naive 7) ''b1''
                   example_store)) ''b1'')
       = Some 20
   \<and> map_option total_amount
        (get_booking_doc
           (snd (create_booking_request exact_arith
              (example_request\<lparr>req_start_time := Aware 10800000000,
                                req_end_time := Aware 3600000000\<rparr>)
              ''finder'' (Naive 7) ''b1'' example_store)) ''b1'')
       = Some (- 20)"
proof -
  let ?swapped_request =
    "example_request\<lparr>req_start_time := Aware 10800000000, req_end_time := Aware 3600000000\<rparr>"
  have h1: "req_finder_id example_request = ''finder''"
    and h1': "req_finder_id ?swapped_request = ''finder''"
    by (simp_all add: example_request_def)
  have h2: "get_parking_spot_doc example_store (req_spot_id example_request) = Some example_spot"
    and h2': "get_parking_spot_doc example_store (req_spot_id ?swapped_request) = Some example_spot"
    by (simp_all add: example_request_def example_store_def get_parking_spot_doc_def)
  have k: "same_kind (req_start_time example_request) (availability_start example_spot)"
    "same_kind (req_end_time example_request) (availability_end example_spot)"
    "same_kind (req_end_time example_request) (req_start_time example_request)"
    and k': "same_kind (req_start_time ?swapped_request) (availability_start example_spot)"
    "same_kind (req_end_time ?swapped_request) (availability_end example_spot)"
    "same_kind (req_end_time ?swapped_request) (req_start_time ?swapped_request)"
    by (simp_all add: example_request_def example_spot_def)
  have forth: "fst (create_booking_request exact_arith example_request ''finder'' (Naive 7) ''b1''
           example_store) = Inr ''b1''
      \<and> map_option total_amount
        (get_booking_doc
           (snd (create_booking_request exact_arith example_request ''finder'' (Naive 7) ''b1''
                   example_store)) ''b1'')
       = Some 20"
    using create_booking_request_comparable [OF h1 h2 k, of exact_arith "Naive 7" "''b1''"]
    by (auto simp: example_request_def example_spot_def exact_arith_def datetime_gt_def)
  have swapped: "map_option total_amount
        (get_booking_doc
           (snd (create_booking_request exact_arith ?swapped_request ''finder'' (Naive 7) ''b1''
                   example_store)) ''b1'')
       = Some (- 20)"
    using create_booking_request_comparable [OF h1' h2' k', of exact_arith "Naive 7" "''b1''"]
    by (auto simp: example_request_def example_spot_def exact_arith_def datetime_gt_def)
  from h1 h2 k forth swapped show ?thesis
    by simp
qed

text \<open>The amount is 20 in every arithmetic that is exact on the three operations
  involved, as rounding to the nearest float is (7200, 2 and 20 are floats).\<close>

lemma two_hours_at_rate_ten:
  assumes "float_truediv fa 7200000000 1000000 = 7200"
    and "float_truediv fa 7200 3600 = 2"
    and "float_mul fa 2 10 = 20"
  shows "map_option total_amount
        (get_booking_doc
           (snd (create_booking_request fa example_request ''finder'' now ''b1'' example_store))
           ''b1'')
       = Some 20"
  using assms
  by (simp add: create_booking_request_def create_booking_def get_booking_doc_def
      total_seconds_def map_of_update_same Let_def example_request_def example_store_def
      example_spot_def get_parking_spot_doc_def datetime_gt_def)

text \<open>
  Claim C1 as first stated, for every requested window, does not hold: for an available spot
  with aware bounds, a request by the authenticated finder for a window of naive datetimes
  is answered with status 500, which is neither 400 nor success, although the window's
  numbers lie inside the bounds.
\<close>

theorem create_booking_request_mixed_datetimes:
  "req_finder_id naive_request = ''finder''
   \<and> get_parking_spot_doc example_store (req_spot_id naive_request) = Some example_spot
   \<and> is_available example_spot
   \<and> create_booking_request exact_arith naive_request ''finder'' (Naive 7) ''b1'' example_store
       = (Inl HTTP_500_INTERNAL_SERVER_ERROR, example_store)"
  by (simp add: create_booking_request_def naive_request_def example_store_def
      example_spot_def get_parking_spot_doc_def)

section \<open>Distance\<close>

text \<open>In exact arithmetic the value \<open>a\<close> lies between 0 and 1 for all coordinates, so
  neither square root raises.  In a rounding arithmetic \<open>a\<close> can exceed 1, and then
  \<^verbatim>\<open>math.sqrt(1 - a)\<close> raises.\<close>

lemma sin_half_diff_squared:
  "(sin ((q - p) / 2))\<^sup>2 + cos p * cos q = (1 + cos (p + q)) / 2" for p q :: real
proof -
  define h where "h = (q - p) / 2"
  have "2 * h = q - p"
    by (simp add: h_def)
  then have "cos (q - p) = 1 - 2 * (sin h)\<^sup>2"
    using cos_double_sin [of h] by simp
  then have "(sin h)\<^sup>2 = (1 - cos (q - p)) / 2"
    by simp
  then show ?thesis
    unfolding h_def by (simp add: cos_diff cos_add field_simps)
qed

lemma haversine_a_range: "0 \<le> haversine_a lat1 lon1 lat2 lon2 \<and> haversine_a lat1 lon1 lat2 lon2 \<le> 1"
proof -
  define p where "p = radians lat1"
  define q where "q = radians lat2"
  define s where "s = (sin ((q - p) / 2))\<^sup>2"
  define t where "t = (sin ((radians lon2 - radians lon1) / 2))\<^sup>2"
  define c where "c = cos p * cos q"
  have a: "haversine_a lat1 lon1 lat2 lon2 = s + c * t"
    by (simp add: haversine_a_def p_def q_def s_def t_def c_def)
  have sin2: "(sin x)\<^sup>2 \<le> 1" for x :: real
    using abs_sin_le_one [of x] by (simp add: abs_square_le_1)
  have t: "0 \<le> t" "t \<le> 1"
    by (simp_all add: t_def sin2)
  have s: "0 \<le> s" "s \<le> 1"
    by (simp_all add: s_def sin2)
  have sc: "s + c = (1 + cos (p + q)) / 2"
    unfolding s_def c_def by (rule sin_half_diff_squared)
  have half: "- 1 \<le> y \<Longrightarrow> y \<le> 1 \<Longrightarrow> 0 \<le> (1 + y) / 2 \<and> (1 + y) / 2 \<le> 1" for y :: real
    by simp
  have sc0: "0 \<le> s + c" and sc1: "s + c \<le> 1"
    unfolding sc using half [OF cos_ge_minus_one cos_le_one, of "p + q"] by blast+
  show ?thesis
  proof (cases "0 \<le> c")
    case True
    then have "0 \<le> c * t" "c * t \<le> c"
      using t by (simp_all add: mult_left_le)
    then show ?thesis using s sc0 sc1 a by linarith
  next
    case False
    then have "c * t \<le> 0" "c \<le> c * t"
      using t by (simp_all add: mult_nonpos_nonneg mult_le_cancel_left2 not_le less_imp_le)
    then show ?thesis using s sc0 sc1 a by linarith
  qed
qed

lemma calculate_distance_exact:
  "calculate_distance exact_arith lat1 lon1 lat2 lon2 = Some (haversine lat1 lon1 lat2 lon2)"
  using haversine_a_range [of lat1 lon1 lat2 lon2]
  by (simp add: calculate_distance_def exact_arith_def haversine_def haversine_a_def
      math_sqrt_def Let_def)

lemma calculate_distance_raises_iff:
  "calculate_distance fa lat1 lon1 lat2 lon2 = None \<longleftrightarrow>
     (let dlat = float_sub fa (math_radians fa lat2) (math_radians fa lat1);
          dlon = float_sub fa (math_radians fa lon2) (math_radians fa lon1);
          a = float_add fa
                (float_pow fa (math_sin fa (float_truediv fa dlat 2)) 2)
                (float_mul fa
                   (float_mul fa (math_cos fa (math_radians fa lat1))
                      (math_cos fa (math_radians fa lat2)))
                   (float_pow fa (math_sin fa (float_truediv fa dlon 2)) 2))
      in a < 0 \<or> float_sub fa 1 a < 0)"
  by (simp add: calculate_distance_def math_sqrt_def Let_def)


lemma atan2_same: "0 < x \<Longrightarrow> atan2 x x = pi / 4"
  by (simp add: atan2_def arctan_one)



lemma haversine_a_equator: "haversine_a 0 180 0 90 = 1 / 2"
proof -
  have "(radians 90 - radians 180) / 2 = - (pi / 4)"
    by (simp add: radians_def)
  then show ?thesis
    by (simp add: haversine_a_def sin_45 power_divide radians_def)
qed

lemma haversine_equator_quarter: "haversine 0 180 0 90 = 6371000 * pi / 2"
proof -
  have "0 < sqrt (1 / 2 :: real)"
    by simp
  then show ?thesis
    by (simp add: haversine_def haversine_a_equator atan2_same del: real_sqrt_gt_0_iff)
qed

lemma haversine_on_equator:
  assumes "0 \<le> lon2 - lon1" and "lon2 - lon1 < 180"
  shows "haversine 0 lon1 0 lon2 = 6371000 * radians (lon2 - lon1)"
proof -
  define x where "x = radians (lon2 - lon1) / 2"
  have x0: "0 \<le> x"
    using assms(1) by (simp add: x_def radians_def)
  have x1: "x < pi / 2"
    using assms(2) by (simp add: x_def radians_def)
  have a: "haversine_a 0 lon1 0 lon2 = (sin x)\<^sup>2"
    by (simp add: haversine_a_def x_def radians_def diff_divide_distrib left_diff_distrib)
  have s: "0 \<le> sin x"
    using x0 x1 pi_gt_zero by (intro sin_ge_zero) linarith+
  have c: "0 < cos x"
    using x0 x1 by (intro cos_gt_zero_pi) linarith+
  have "1 - (sin x)\<^sup>2 = (cos x)\<^sup>2"
    using sin_cos_squared_add [of x] by linarith
  then have r: "sqrt (1 - (sin x)\<^sup>2) = cos x"
    using c by simp
  have "atan2 (sin x) (cos x) = arctan (tan x)"
    using c by (simp add: atan2_def tan_def)
  also have "\<dots> = x"
    using x0 x1 by (intro arctan_tan) linarith+
  finally have "haversine 0 lon1 0 lon2 = 2 * 6371000 * x"
    using s by (simp add: haversine_def a r)
  then show ?thesis
    by (simp add: x_def)
qed



section \<open>Listing: the filter loop and the page slice\<close>

text \<open>The loop returns the spots that pass all tests, or raises at a spot for which the
  distance or a comparison of datetimes raises.\<close>

lemma filter_spots_Some:
  "filter_spots fa search spots_list = Some filtered \<Longrightarrow>
   filtered = filter (\<lambda>spot. keep_spot fa search spot = Some True) spots_list"
proof (induction spots_list arbitrary: filtered)
  case Nil
  then show ?case by simp
next
  case (Cons spot spots_list)
  then show ?case
    by (auto split: option.splits if_splits)
qed

lemma filter_spots_None:
  "filter_spots fa search spots_list = None \<longleftrightarrow>
   (\<exists>spot \<in> set spots_list. keep_spot fa search spot = None)"
  by (induction spots_list) (auto split: option.splits)

lemma keep_spot_price:
  "keep_spot fa search spot = Some True \<Longrightarrow> price_filter search spot"
  by (auto simp: keep_spot_def split: option.splits if_splits)

lemma py_slice_nonneg:
  assumes "0 \<le> a" "a \<le> b"
  shows "py_slice xs a b = take (nat (b - a)) (drop (nat a) xs)"
proof (cases "a < int (length xs)")
  case True
  then show ?thesis
    using assms by (auto simp: py_slice_def Let_def min_def nat_diff_distrib)
next
  case False
  then show ?thesis
    using assms by (auto simp: py_slice_def Let_def min_def)
qed

lemma pages_bounds:
  assumes "1 \<le> sz"
  shows "int n \<le> \<lceil>real n / real_of_int sz\<rceil> * sz"
    and "(\<lceil>real n / real_of_int sz\<rceil> - 1) * sz < int n"
proof -
  define x where "x = real n / real_of_int sz"
  have sz: "0 < real_of_int sz"
    using assms by simp
  have n: "real n = x * real_of_int sz"
    using sz by (simp add: x_def)
  have "x \<le> real_of_int \<lceil>x\<rceil>"
    by (rule le_of_int_ceiling)
  then have "x * real_of_int sz \<le> real_of_int \<lceil>x\<rceil> * real_of_int sz"
    using sz by (simp only: mult_le_cancel_right_pos)
  then have "real_of_int (int n) \<le> real_of_int (\<lceil>x\<rceil> * sz)"
    by (simp add: n)
  then show "int n \<le> \<lceil>real n / real_of_int sz\<rceil> * sz"
    unfolding x_def by (simp only: of_int_le_iff)
  have "real_of_int \<lceil>x\<rceil> - 1 < x"
    using ceiling_correct [of x] by simp
  then have "(real_of_int \<lceil>x\<rceil> - 1) * real_of_int sz < x * real_of_int sz"
    using sz by (simp only: mult_less_cancel_right_pos)
  then have "real_of_int ((\<lceil>x\<rceil> - 1) * sz) < real_of_int (int n)"
    by (simp add: n)
  then show "(\<lceil>real n / real_of_int sz\<rceil> - 1) * sz < int n"
    unfolding x_def by (simp only: of_int_less_iff)
qed

lemma set_py_slice: "set (py_slice xs a b) \<subseteq> set xs"
  unfolding py_slice_def Let_def by (meson set_take_subset set_drop_subset subset_trans)

lemma price_filter_applied_when_nonzero:
  assumes "max_price search = Some X" and "X \<noteq> 0"
    and "get_parking_spots fa (Some search) page sz db = Inr r"
  shows "\<forall>spot \<in> set (resp_spots r). hourly_rate spot \<le> X"
proof -
  let ?kept = "filter (\<lambda>spot. keep_spot fa search spot = Some True)
      (get_available_parking_spots db)"
  have "resp_spots r = py_slice ?kept ((page - 1) * sz) ((page - 1) * sz + sz)"
    using assms(3)
    by (auto simp: get_parking_spots_def apply_search_filters_def Let_def
        dest!: filter_spots_Some split: if_splits option.splits)
  then have "set (resp_spots r) \<subseteq> set ?kept"
    by (simp only: set_py_slice)
  moreover have "\<forall>spot \<in> set ?kept. hourly_rate spot \<le> X"
    using assms(1,2) by (auto dest!: keep_spot_price simp: price_filter_def truthy_def)
  ultimately show ?thesis
    by blast
qed

lemma no_filters_returns_available:
  assumes "get_parking_spots fa None page sz db = Inr r"
  shows "resp_spots r = take (nat sz) (drop (nat ((page - 1) * sz)) (get_available_parking_spots db))
    \<and> resp_total r = int (length (get_available_parking_spots db))"
  using assms
  by (auto simp: get_parking_spots_def apply_search_filters_def py_slice_nonneg Let_def
      split: if_splits)

lemma time_filter_containment:
  assumes "search_start_time search = Some t1" and "search_end_time search = Some t2"
  shows "time_filter search spot = Some True \<longleftrightarrow>
     datetime_gt (availability_start spot) t1 = Some False
     \<and> datetime_lt (availability_end spot) t2 = Some False"
  using assms by (auto simp: time_filter_def split: option.splits bool.splits)

lemma get_available_example: "get_available_parking_spots example_store = [example_spot]"
  by (simp add: get_available_parking_spots_def example_store_def example_spot_def)

lemma first_page_of_one: "py_slice [x] 0 20 = [x]"
  by (simp add: py_slice_def)

lemma one_page: "\<lceil>1 / 20 :: real\<rceil> = 1"
  by (rule ceiling_unique) simp_all

lemma get_available_equator:
  "get_available_parking_spots equator_store
     = [spot_at ''far'' 180, spot_at ''walk'' (361 / 4), spot_at ''here'' 90,
        spot_at ''also'' 90]"
  by (simp add: get_available_parking_spots_def equator_store_def spot_at_def example_spot_def)

text \<open>A search with naive times over a store of aware availability windows: the
  comparison raises in the loop and the listing answers 500.\<close>

lemma listing_raises_on_mixed_datetimes:
  "get_parking_spots fa (Some search_naive_times) 1 20 example_store
     = Inl HTTP_500_INTERNAL_SERVER_ERROR"
proof -
  have "keep_spot fa search_naive_times example_spot = None"
    by (simp add: keep_spot_def location_filter_def price_filter_def vehicle_size_filter_def
        time_filter_def truthy_def search_naive_times_def example_spot_def datetime_gt_def)
  then show ?thesis
    by (simp add: get_parking_spots_def apply_search_filters_def get_available_example)
qed

subsection \<open>Pagination\<close>

text \<open>
  Claim C6.  For every list that the filters produce, every page number of at least 1 and
  every page size from 1 to 100, the listing succeeds; it reports as total the length of the
  whole filtered list and as pages the ceiling of total / size (the least number of pages of
  that size that hold the list), and it returns the items at positions (page - 1) * size up
  to page * size of the filtered list.  A page beyond the last one gives an empty item list,
  not an error, with the same total and pages.
\<close>

theorem get_parking_spots_pagination:
  assumes "1 \<le> page" and "1 \<le> sz" and "sz \<le> 100"
    and "apply_search_filters fa search (get_available_parking_spots db) = Some filtered"
  shows "\<exists>r.
      get_parking_spots fa search page sz db = Inr r
    \<and> resp_total r = int (length filtered)
    \<and> resp_pages r = \<lceil>real (length filtered) / real_of_int sz\<rceil>
    \<and> int (length filtered) \<le> resp_pages r * sz
    \<and> (resp_pages r - 1) * sz < int (length filtered)
    \<and> resp_spots r = take (nat sz) (drop (nat ((page - 1) * sz)) filtered)
    \<and> (resp_pages r < page \<longrightarrow> resp_spots r = [])"
proof -
  define r where "r = \<lparr> resp_spots = py_slice filtered ((page - 1) * sz) ((page - 1) * sz + sz),
     resp_total = int (length filtered), resp_page = page, resp_size = sz,
     resp_pages = \<lceil>real_of_int (int (length filtered)) / real_of_int sz\<rceil> \<rparr>"
  have g: "get_parking_spots fa search page sz db = Inr r"
    using assms by (simp add: get_parking_spots_def r_def Let_def)
  have sl: "resp_spots r = take (nat sz) (drop (nat ((page - 1) * sz)) filtered)"
    using assms(1,2) by (simp add: r_def py_slice_nonneg)
  have pg: "int (length filtered) \<le> resp_pages r * sz"
    "(resp_pages r - 1) * sz < int (length filtered)"
    using pages_bounds [OF assms(2), of "length filtered"] by (simp_all add: r_def)
  have beyond: "resp_spots r = []" if "resp_pages r < page"
  proof -
    have "int (length filtered) \<le> resp_pages r * sz"
      by (rule pg(1))
    also have "\<dots> \<le> (page - 1) * sz"
      using that assms(2) by (simp add: mult_right_mono)
    finally have "length filtered \<le> nat ((page - 1) * sz)"
      by simp
    then show ?thesis by (simp add: sl)
  qed
  from g sl pg beyond show ?thesis
    by (auto simp: r_def)
qed

theorem get_parking_spots_pagination_witness:
  "(1::int) \<le> 2 \<and> (1::int) \<le> 3 \<and> (3::int) \<le> 100
   \<and> apply_search_filters exact_arith None (get_available_parking_spots equator_store)
       = Some (get_available_parking_spots equator_store)
   \<and> (\<exists>r. get_parking_spots exact_arith None 2 3 equator_store = Inr r
          \<and> resp_spots r = [spot_at ''also'' 90] \<and> resp_total r = 4 \<and> resp_pages r = 2)
   \<and> (\<exists>r. get_parking_spots exact_arith None 3 3 equator_store = Inr r
          \<and> resp_spots r = [] \<and> resp_total r = 4 \<and> resp_pages r = 2)"
proof -
  have h1: "(1::int) \<le> 2" and h1': "(1::int) \<le> 3" and h3: "(3::int) \<le> 100"
    by simp_all
  have f: "apply_search_filters exact_arith None (get_available_parking_spots equator_store)
       = Some (get_available_parking_spots equator_store)"
    by (simp add: apply_search_filters_def)
  have c: "\<lceil>4 / 3 :: real\<rceil> = 2"
    by (rule ceiling_unique) simp_all
  show ?thesis
    using h1 h1' h3 f
      get_parking_spots_pagination [OF h1 h1' h3 f]
      get_parking_spots_pagination [OF h1' h1' h3 f]
    by (auto simp: get_available_equator c)
qed

subsection \<open>The price filter\<close>

text \<open>
  Claim C4.  The price filter is guarded by the truth value of \<^verbatim>\<open>search.max_price\<close>, and
  \<^verbatim>\<open>0.0\<close> is false: with max_price = 0 the filter is skipped and a spot whose hourly rate is
  10 is returned.  (For a max_price other than 0 no returned spot costs more, and without a
  search object the page is cut from the whole list of available spots: the two lemmas
  \<open>price_filter_applied_when_nonzero\<close> and \<open>no_filters_returns_available\<close> above.)
\<close>

theorem max_price_zero_not_applied:
  "max_price search_price_zero = Some 0
   \<and> hourly_rate example_spot = 10
   \<and> get_parking_spots fa (Some search_price_zero) 1 20 example_store
       = Inr \<lparr> resp_spots = [example_spot], resp_total = 1, resp_page = 1, resp_size = 20,
               resp_pages = 1 \<rparr>"
proof -
  have "keep_spot fa search_price_zero example_spot = Some True"
    by (simp add: keep_spot_def location_filter_def price_filter_def vehicle_size_filter_def
        time_filter_def truthy_def search_price_zero_def)
  then have "apply_search_filters fa (Some search_price_zero)
      (get_available_parking_spots example_store) = Some [example_spot]"
    by (simp add: apply_search_filters_def get_available_example)
  then show ?thesis
    by (simp add: get_parking_spots_def first_page_of_one one_page search_price_zero_def
        example_spot_def)
qed

subsection \<open>The location filter\<close>

text \<open>
  Claim C5.  The location filter is guarded by the truth values of latitude, longitude and
  radius, and \<^verbatim>\<open>0.0\<close> is false: a search centred on the equator (latitude 0, longitude
  180) with a radius of 1000 metres skips the filter and returns a spot that is a quarter of
  the way round the Earth from the centre.  (When both times are supplied and the
  comparisons do not raise, the time filter keeps exactly the spots whose availability
  window contains the requested one: lemma \<open>time_filter_containment\<close> above.)
\<close>

theorem location_filter_skipped_at_zero:
  "search_latitude search_equator = Some 0
   \<and> search_longitude search_equator = Some 180
   \<and> search_radius search_equator = Some 1000
   \<and> calculate_distance exact_arith 0 180 (latitude example_spot) (longitude example_spot)
       = Some (6371000 * pi / 2)
   \<and> 1000 < 6371000 * pi / 2
   \<and> get_parking_spots fa (Some search_equator) 1 20 example_store
       = Inr \<lparr> resp_spots = [example_spot], resp_total = 1, resp_page = 1, resp_size = 20,
               resp_pages = 1 \<rparr>"
proof -
  have "keep_spot fa search_equator example_spot = Some True"
    by (simp add: keep_spot_def location_filter_def price_filter_def vehicle_size_filter_def
        time_filter_def truthy_def search_equator_def)
  then have "apply_search_filters fa (Some search_equator)
      (get_available_parking_spots example_store) = Some [example_spot]"
    by (simp add: apply_search_filters_def get_available_example)
  then have g: "get_parking_spots fa (Some search_equator) 1 20 example_store
       = Inr \<lparr> resp_spots = [example_spot], resp_total = 1, resp_page = 1, resp_size = 20,
               resp_pages = 1 \<rparr>"
    by (simp add: get_parking_spots_def first_page_of_one one_page)
  have d: "calculate_distance exact_arith 0 180 (latitude example_spot) (longitude example_spot)
       = Some (6371000 * pi / 2)"
    by (simp add: calculate_distance_exact example_spot_def haversine_equator_quarter)
  have far: "1000 < 6371000 * pi / 2"
    using pi_ge_two by simp
  from g d far show ?thesis
    by (simp add: search_equator_def)
qed

section \<open>Nearby spots\<close>

lemma ties_in_input_order:
  "map fst (filter (\<lambda>x. snd x = k)
       (filter (\<lambda>(spot, d). d \<le> radius) (map (\<lambda>spot. (spot, f spot)) xs)))
     = filter (\<lambda>spot. f spot = k \<and> k \<le> (radius :: real)) xs"
  by (induction xs) auto

lemma nearby_loop_Some:
  assumes "\<forall>spot \<in> set spots_list.
      calculate_distance fa lat lon (latitude spot) (longitude spot) \<noteq> None"
  shows "nearby_loop fa lat lon radius spots_list =
     Some (filter (\<lambda>(spot, d). d \<le> radius)
        (map (\<lambda>spot. (spot, the (calculate_distance fa lat lon (latitude spot) (longitude spot))))
           spots_list))"
  using assms by (induction spots_list) auto

lemma nearby_loop_None:
  "nearby_loop fa lat lon radius spots_list = None \<longleftrightarrow>
   (\<exists>spot \<in> set spots_list.
      calculate_distance fa lat lon (latitude spot) (longitude spot) = None)"
  by (induction spots_list) (auto split: option.splits)

lemma distances_from_longitude_90:
  "calculate_distance exact_arith 0 90 0 180 = Some (6371000 * pi / 2)"
  "calculate_distance exact_arith 0 90 0 (361 / 4) = Some (6371000 * pi / 720)"
  "calculate_distance exact_arith 0 90 0 90 = Some 0"
  by (simp_all add: calculate_distance_exact haversine_on_equator radians_def)

text \<open>
  Claim C8.  For a latitude, longitude and radius inside their declared bounds: if the
  distance raises for some available spot the nearby search answers 500; otherwise it
  succeeds, and every returned entry is an available spot paired with its computed distance
  from the centre, that distance being at most the radius; every available spot whose
  computed distance is within the radius is returned; the entries are in non-decreasing
  order of distance; and the spots at one and the same distance appear in the order in which
  the store lists them.
\<close>

theorem get_nearby_parking_spots_sorted:
  assumes "- 90 \<le> lat" and "lat \<le> 90" and "- 180 \<le> lon" and "lon \<le> 180"
    and "100 \<le> radius" and "radius \<le> 50000"
  shows "(if \<exists>spot \<in> set (get_available_parking_spots db).
             calculate_distance fa lat lon (latitude spot) (longitude spot) = None
          then get_nearby_parking_spots fa lat lon radius db = Inl HTTP_500_INTERNAL_SERVER_ERROR
          else \<exists>res. get_nearby_parking_spots fa lat lon radius db = Inr res
            \<and> (\<forall>(spot, d) \<in> set res.
                  spot \<in> set (get_available_parking_spots db)
                \<and> calculate_distance fa lat lon (latitude spot) (longitude spot) = Some d
                \<and> d \<le> radius)
            \<and> (\<forall>spot \<in> set (get_available_parking_spots db). \<forall>d.
                  calculate_distance fa lat lon (latitude spot) (longitude spot) = Some d
                  \<and> d \<le> radius
                  \<longrightarrow> (spot, d) \<in> set res)
            \<and> sorted (map snd res)
            \<and> (\<forall>k. map fst (filter (\<lambda>x. snd x = k) res)
                   = filter (\<lambda>spot.
                        calculate_distance fa lat lon (latitude spot) (longitude spot) = Some k
                        \<and> k \<le> radius)
                       (get_available_parking_spots db)))"
proof (cases "\<exists>spot \<in> set (get_available_parking_spots db).
             calculate_distance fa lat lon (latitude spot) (longitude spot) = None")
  case True
  then have "nearby_loop fa lat lon radius (get_available_parking_spots db) = None"
    by (simp only: nearby_loop_None)
  then show ?thesis
    using True assms by (simp add: get_nearby_parking_spots_def)
next
  case False
  define dist :: "ParkingSpot \<Rightarrow> real"
    where "dist = (\<lambda>spot. the (calculate_distance fa lat lon (latitude spot) (longitude spot)))"
  have dd: "calculate_distance fa lat lon (latitude spot) (longitude spot) = Some d
      \<longleftrightarrow> dist spot = d" if "spot \<in> set (get_available_parking_spots db)" for spot d
    using False that by (auto simp: dist_def)
  define near where "near = filter (\<lambda>(spot, d). d \<le> radius)
        (map (\<lambda>spot. (spot, dist spot)) (get_available_parking_spots db))"
  define res where "res = sort_key snd near"
  have all_defined: "\<forall>spot \<in> set (get_available_parking_spots db).
      calculate_distance fa lat lon (latitude spot) (longitude spot) \<noteq> None"
    using False by simp
  have "nearby_loop fa lat lon radius (get_available_parking_spots db) = Some near"
    unfolding near_def dist_def by (rule nearby_loop_Some [OF all_defined])
  then have g: "get_nearby_parking_spots fa lat lon radius db = Inr res"
    using assms by (simp add: get_nearby_parking_spots_def res_def)
  have s: "set res = set near"
    by (simp add: res_def)
  have snd1: "\<forall>(spot, d) \<in> set res.
          spot \<in> set (get_available_parking_spots db)
        \<and> calculate_distance fa lat lon (latitude spot) (longitude spot) = Some d
        \<and> d \<le> radius"
    unfolding s by (auto simp: near_def dd)
  have cmp: "\<forall>spot \<in> set (get_available_parking_spots db). \<forall>d.
          calculate_distance fa lat lon (latitude spot) (longitude spot) = Some d \<and> d \<le> radius
          \<longrightarrow> (spot, d) \<in> set res"
    unfolding s by (auto simp: near_def dd)
  have srt: "sorted (map snd res)"
    by (simp add: res_def)
  have stab: "map fst (filter (\<lambda>x. snd x = k) res)
           = filter (\<lambda>spot. calculate_distance fa lat lon (latitude spot) (longitude spot) = Some k
                           \<and> k \<le> radius)
               (get_available_parking_spots db)" for k
  proof -
    have "filter (\<lambda>x. snd x = k) res = filter (\<lambda>x. snd x = k) near"
      unfolding res_def by (rule sort_key_stable)
    also have "map fst \<dots> = filter (\<lambda>spot. dist spot = k \<and> k \<le> radius)
        (get_available_parking_spots db)"
      unfolding near_def by (rule ties_in_input_order)
    also have "\<dots> = filter (\<lambda>spot.
        calculate_distance fa lat lon (latitude spot) (longitude spot) = Some k \<and> k \<le> radius)
        (get_available_parking_spots db)"
      by (rule filter_cong) (auto simp: dd)
    finally show ?thesis .
  qed
  from g snd1 cmp srt stab False show ?thesis
    by auto
qed

theorem get_nearby_parking_spots_sorted_witness:
  "- 90 \<le> (0::real) \<and> (0::real) \<le> 90 \<and> - 180 \<le> (90::real) \<and> (90::real) \<le> 180
   \<and> 100 \<le> (50000::real) \<and> (50000::real) \<le> 50000
   \<and> get_nearby_parking_spots exact_arith 0 90 50000 equator_store
       = Inr [(spot_at ''here'' 90, 0), (spot_at ''also'' 90, 0),
              (spot_at ''walk'' (361 / 4), 6371000 * pi / 720)]
   \<and> (\<exists>res. get_nearby_parking_spots exact_arith 0 90 50000 equator_store = Inr res
          \<and> sorted (map snd res)
          \<and> (\<forall>(spot, d) \<in> set res. d \<le> 50000))"
proof -
  have h1: "- 90 \<le> (0::real)" and h2: "(0::real) \<le> 90" and h3: "- 180 \<le> (90::real)"
    and h4: "(90::real) \<le> 180" and h5: "100 \<le> (50000::real)" and h6: "(50000::real) \<le> 50000"
    by simp_all
  have far: "\<not> 6371000 * pi / 2 \<le> 50000"
    using pi_ge_two by simp
  have walk: "6371000 * pi / 720 \<le> 50000" "\<not> 6371000 * pi / 720 \<le> 0"
    using pi_less_4 by (simp_all add: not_le)
  have loop: "nearby_loop exact_arith 0 90 50000 (get_available_parking_spots equator_store)
      = Some [(spot_at ''walk'' (361 / 4), 6371000 * pi / 720), (spot_at ''here'' 90, 0),
              (spot_at ''also'' 90, 0)]"
    using far walk
    by (simp add: get_available_equator spot_at_def example_spot_def distances_from_longitude_90)
  have val: "get_nearby_parking_spots exact_arith 0 90 50000 equator_store
       = Inr [(spot_at ''here'' 90, 0), (spot_at ''also'' 90, 0),
              (spot_at ''walk'' (361 / 4), 6371000 * pi / 720)]"
    using walk by (simp add: get_nearby_parking_spots_def loop)
  have defined: "\<not> (\<exists>spot \<in> set (get_available_parking_spots equator_store).
      calculate_distance exact_arith 0 90 (latitude spot) (longitude spot) = None)"
    by (simp add: calculate_distance_exact)
  show ?thesis
    using h1 h2 h3 h4 h5 h6 val defined walk far
      get_nearby_parking_spots_sorted [OF h1 h2 h3 h4 h5 h6, of equator_store exact_arith]
    by auto
qed

end
